theory Spec2Isabelle
  imports Main
begin

section \<open>Python values and the builtins the program relies on\<close>

text \<open>
  The program handles three kinds of dynamically typed data: the port argument of the
  command generator (\<open>None\<close>, a \<open>str\<close> or a \<open>list\<close> of \<open>str\<close>), the optional address
  (\<open>None\<close> or a \<open>str\<close>), and whatever \<open>json.loads\<close> returns for the ruleset dump.
  All of them are values of the datatype \<open>py\<close>. A \<open>dict\<close> is an association list in
  insertion order; a list that stands for a Python \<open>dict\<close> has pairwise distinct keys.
  Strings are byte lists holding the UTF-8 encoding of the Python \<open>str\<close>. JSON numbers
  with a fraction (Python \<open>float\<close>) do not occur in the dump and are not modelled. An
  \<open>int\<close> comes from \<open>json.loads\<close> or \<open>int()\<close>, which give no number of more than 4300
  digits, so that its \<open>str\<close> is always defined.
\<close>

datatype py =
    PNone
  | PBool bool
  | PInt int
  | PStr string
  | PList "py list"
  | PDict "(string \<times> py) list"

datatype py_error = TypeError | ValueError | AttributeError | IndexError | KeyError

subsection \<open>Strings\<close>

text \<open>\<open>str.lower\<close>, on the ASCII letters. No character outside ASCII lowers to an ASCII
  letter of the protocol names the program compares with.\<close>

definition lower_char :: "char \<Rightarrow> char" where
  "lower_char c =
     (case map_of (zip ''ABCDEFGHIJKLMNOPQRSTUVWXYZ'' ''abcdefghijklmnopqrstuvwxyz'') c of
        Some d \<Rightarrow> d
      | None \<Rightarrow> c)"

definition lower :: "string \<Rightarrow> string" where
  "lower s = map lower_char s"

text \<open>A Python \<open>str\<close> is a sequence of code points. \<open>chars\<close> cuts the UTF-8 bytes
  into the encoded characters: the first byte of a character says how many bytes it
  takes.\<close>

definition char_len :: "char \<Rightarrow> nat" where
  "char_len c =
     (if (of_char c :: nat) < 0xC0 then 1
      else if (of_char c :: nat) < 0xE0 then 2
      else if (of_char c :: nat) < 0xF0 then 3
      else 4)"

fun chars :: "string \<Rightarrow> string list" where
  "chars [] = []"
| "chars (c # cs) = (c # take (char_len c - 1) cs) # chars (drop (char_len c - 1) cs)"

text \<open>The ASCII characters for which \<open>str.isspace\<close> holds: tab, line feed, vertical tab,
  form feed, carriage return, the four separators 0x1C to 0x1F, and the space.\<close>

definition is_space :: "char \<Rightarrow> bool" where
  "is_space c = (c \<in> set [CHR 0x09, CHR 0x0A, CHR 0x0B, CHR 0x0C, CHR 0x0D,
                            CHR 0x1C, CHR 0x1D, CHR 0x1E, CHR 0x1F, CHR 0x20])"

text \<open>The characters outside ASCII for which \<open>str.isspace\<close> holds, in UTF-8: U+0085,
  U+00A0, U+1680, U+2000 to U+200A, U+2028, U+2029, U+202F, U+205F and U+3000.\<close>

definition unicode_spaces :: "string list" where
  "unicode_spaces =
     [[CHR 0xC2, CHR 0x85],
      [CHR 0xC2, CHR 0xA0],
      [CHR 0xE1, CHR 0x9A, CHR 0x80],
      [CHR 0xE2, CHR 0x80, CHR 0x80],
      [CHR 0xE2, CHR 0x80, CHR 0x81],
      [CHR 0xE2, CHR 0x80, CHR 0x82],
      [CHR 0xE2, CHR 0x80, CHR 0x83],
      [CHR 0xE2, CHR 0x80, CHR 0x84],
      [CHR 0xE2, CHR 0x80, CHR 0x85],
      [CHR 0xE2, CHR 0x80, CHR 0x86],
      [CHR 0xE2, CHR 0x80, CHR 0x87],
      [CHR 0xE2, CHR 0x80, CHR 0x88],
      [CHR 0xE2, CHR 0x80, CHR 0x89],
      [CHR 0xE2, CHR 0x80, CHR 0x8A],
      [CHR 0xE2, CHR 0x80, CHR 0xA8],
      [CHR 0xE2, CHR 0x80, CHR 0xA9],
      [CHR 0xE2, CHR 0x80, CHR 0xAF],
      [CHR 0xE2, CHR 0x81, CHR 0x9F],
      [CHR 0xE3, CHR 0x80, CHR 0x80]]"

text \<open>\<open>str.isspace\<close> of one character.\<close>

definition is_space_char :: "string \<Rightarrow> bool" where
  "is_space_char t = (case t of [c] \<Rightarrow> is_space c | _ \<Rightarrow> t \<in> set unicode_spaces)"

text \<open>\<open>s.strip()\<close>.\<close>

definition strip :: "string \<Rightarrow> string" where
  "strip s = concat (rev (dropWhile is_space_char (rev (dropWhile is_space_char (chars s)))))"

text \<open>\<open>s.split(c)\<close> with a one-character separator: never the empty list.\<close>

fun split_on :: "char \<Rightarrow> string \<Rightarrow> string list" where
  "split_on c [] = [[]]"
| "split_on c (x # xs) =
     (if x = c then [] # split_on c xs
      else (case split_on c xs of
              [] \<Rightarrow> [[x]]
            | w # ws \<Rightarrow> (x # w) # ws))"

text \<open>\<open>s.split()\<close>: the maximal runs of characters that are not whitespace. The first
  argument is the word read so far.\<close>

fun split_ws_acc :: "string \<Rightarrow> string list \<Rightarrow> string list" where
  "split_ws_acc w [] = (if w = [] then [] else [w])"
| "split_ws_acc w (t # ts) =
     (if is_space_char t then (if w = [] then split_ws_acc [] ts else w # split_ws_acc [] ts)
      else split_ws_acc (w @ t) ts)"

definition split_ws :: "string \<Rightarrow> string list" where
  "split_ws s = split_ws_acc [] (chars s)"

text \<open>\<open>sep.join(parts)\<close>.\<close>

fun join :: "string \<Rightarrow> string list \<Rightarrow> string" where
  "join sep [] = []"
| "join sep [x] = x"
| "join sep (x # y # ys) = x @ sep @ join sep (y # ys)"

text \<open>\<open>p in s\<close> for two strings: \<open>p\<close> occurs in \<open>s\<close> as a contiguous block.\<close>

fun starts_with :: "string \<Rightarrow> string \<Rightarrow> bool" where
  "starts_with [] s = True"
| "starts_with (p # ps) [] = False"
| "starts_with (p # ps) (x # xs) = (p = x \<and> starts_with ps xs)"

fun contains_str :: "string \<Rightarrow> string \<Rightarrow> bool" where
  "contains_str p [] = (p = [])"
| "contains_str p (x # xs) = (starts_with p (x # xs) \<or> contains_str p xs)"

subsection \<open>Integers and their decimal form\<close>

definition digit_char :: "nat \<Rightarrow> char" where
  "digit_char d = ''0123456789'' ! (d mod 10)"

fun show_nat :: "nat \<Rightarrow> string" where
  "show_nat n = (if n < 10 then [digit_char n] else show_nat (n div 10) @ [digit_char (n mod 10)])"

declare show_nat.simps [simp del]

text \<open>\<open>str(i)\<close> for an \<open>int\<close>.\<close>

definition show_int :: "int \<Rightarrow> string" where
  "show_int i = (if i < 0 then CHR ''-'' # show_nat (nat (- i)) else show_nat (nat i))"

definition digit_val :: "char \<Rightarrow> nat option" where
  "digit_val c = map_of (zip ''0123456789'' [0, 1, 2, 3, 4, 5, 6, 7, 8, 9]) c"

text \<open>The body of a decimal literal as \<open>int()\<close> takes it: digits, with single underscores
  allowed between two digits. The first argument says whether the previous character
  was a digit.\<close>

fun parse_digits :: "bool \<Rightarrow> nat \<Rightarrow> string \<Rightarrow> nat option" where
  "parse_digits prev acc [] = (if prev then Some acc else None)"
| "parse_digits prev acc (c # cs) =
     (if c = CHR ''_'' then (if prev then parse_digits False acc cs else None)
      else (case digit_val c of
              None \<Rightarrow> None
            | Some d \<Rightarrow> parse_digits True (10 * acc + d) cs))"

text \<open>The code point of an encoded character.\<close>

definition code_point :: "string \<Rightarrow> nat" where
  "code_point t =
     (case t of
        [a] \<Rightarrow> of_char a
      | [a, b] \<Rightarrow> (of_char a - 0xC0) * 64 + (of_char b - 0x80)
      | [a, b, c] \<Rightarrow> (of_char a - 0xE0) * 4096 + (of_char b - 0x80) * 64 + (of_char c - 0x80)
      | [a, b, c, d] \<Rightarrow>
          (of_char a - 0xF0) * 262144 + (of_char b - 0x80) * 4096 + (of_char c - 0x80) * 64
          + (of_char d - 0x80)
      | _ \<Rightarrow> 0)"

text \<open>The decimal digits of Unicode 14.0 (the tables of CPython 3.11) come in runs of ten,
  zero to nine; these are the code points of the zeros.\<close>

definition decimal_zeros :: "nat list" where
  "decimal_zeros =
     [0x30, 0x660, 0x6F0, 0x7C0, 0x966, 0x9E6, 0xA66, 0xAE6, 0xB66, 0xBE6, 0xC66, 0xCE6, 0xD66,
      0xDE6, 0xE50, 0xED0, 0xF20, 0x1040, 0x1090, 0x17E0, 0x1810, 0x1946, 0x19D0, 0x1A80, 0x1A90,
      0x1B50, 0x1BB0, 0x1C40, 0x1C50, 0xA620, 0xA8D0, 0xA900, 0xA9D0, 0xA9F0, 0xAA50, 0xABF0,
      0xFF10, 0x104A0, 0x10D30, 0x11066, 0x110F0, 0x11136, 0x111D0, 0x112F0, 0x11450, 0x114D0,
      0x11650, 0x116C0, 0x11730, 0x118E0, 0x11950, 0x11C50, 0x11D50, 0x11DA0, 0x16A60, 0x16AC0,
      0x16B50, 0x1D7CE, 0x1D7D8, 0x1D7E2, 0x1D7EC, 0x1D7F6, 0x1E140, 0x1E2F0, 0x1E950, 0x1FBF0]"

definition decimal_of :: "nat \<Rightarrow> nat option" where
  "decimal_of cp =
     (case filter (\<lambda>z. z \<le> cp \<and> cp < z + 10) decimal_zeros of
        [] \<Rightarrow> None
      | z # zs \<Rightarrow> Some (cp - z))"

text \<open>What \<open>int()\<close> does to each character of a \<open>str\<close> before it parses: a character
  below 127 stays, any other whitespace becomes a space, any other decimal digit its
  ASCII digit, and anything else a question mark, which makes the parse fail.\<close>

definition to_ascii :: "string \<Rightarrow> char" where
  "to_ascii t =
     (case t of
        [c] \<Rightarrow> if (of_char c :: nat) < 127 then c else CHR ''?''
      | _ \<Rightarrow>
          if t \<in> set unicode_spaces then CHR '' ''
          else (case decimal_of (code_point t) of
                  None \<Rightarrow> CHR ''?''
                | Some d \<Rightarrow> digit_char d))"

text \<open>The blanks the parser of \<open>int()\<close> skips at both ends: tab, line feed, vertical tab,
  form feed, carriage return and space (not the separators 0x1C to 0x1F).\<close>

definition int_space :: "char \<Rightarrow> bool" where
  "int_space c = (c \<in> set [CHR 0x09, CHR 0x0A, CHR 0x0B, CHR 0x0C, CHR 0x0D, CHR 0x20])"

text \<open>CPython 3.11 refuses a decimal string of more than 4300 digits (underscores are not
  counted, leading zeros are).\<close>

definition max_str_digits :: nat where
  "max_str_digits = 4300"

definition parse_body :: "string \<Rightarrow> nat option" where
  "parse_body ds =
     (case parse_digits False 0 ds of
        None \<Rightarrow> None
      | Some n \<Rightarrow>
          if length (filter (\<lambda>c. c \<noteq> CHR ''_'') ds) > max_str_digits then None else Some n)"

text \<open>\<open>int(s)\<close> for a \<open>str\<close>, base ten: blanks at both ends are dropped, one sign is
  allowed, anything else raises \<open>ValueError\<close>.\<close>

definition py_int_of_str :: "string \<Rightarrow> py_error + int" where
  "py_int_of_str s =
     (case rev (dropWhile int_space (rev (dropWhile int_space (map to_ascii (chars s))))) of
        [] \<Rightarrow> Inl ValueError
      | c # cs \<Rightarrow>
          if c = CHR ''-'' then
            (case parse_body cs of None \<Rightarrow> Inl ValueError | Some n \<Rightarrow> Inr (- int n))
          else if c = CHR ''+'' then
            (case parse_body cs of None \<Rightarrow> Inl ValueError | Some n \<Rightarrow> Inr (int n))
          else
            (case parse_body (c # cs) of None \<Rightarrow> Inl ValueError | Some n \<Rightarrow> Inr (int n)))"

subsection \<open>Truth, \<open>str\<close> and \<open>repr\<close>\<close>

fun truthy :: "py \<Rightarrow> bool" where
  "truthy PNone = False"
| "truthy (PBool b) = b"
| "truthy (PInt i) = (i \<noteq> 0)"
| "truthy (PStr s) = (s \<noteq> [])"
| "truthy (PList xs) = (xs \<noteq> [])"
| "truthy (PDict kvs) = (kvs \<noteq> [])"

definition hex_char :: "nat \<Rightarrow> char" where
  "hex_char d = ''0123456789abcdef'' ! (d mod 16)"

definition repr_char :: "char \<Rightarrow> char \<Rightarrow> string" where
  "repr_char q c =
     (if c = CHR 0x5C then [CHR 0x5C, CHR 0x5C]
      else if c = q then [CHR 0x5C, q]
      else if c = CHR 0x09 then [CHR 0x5C, CHR ''t'']
      else if c = CHR 0x0A then [CHR 0x5C, CHR ''n'']
      else if c = CHR 0x0D then [CHR 0x5C, CHR ''r'']
      else if (of_char c :: nat) < 32 \<or> c = CHR 0x7F then
        [CHR 0x5C, CHR ''x'', hex_char (of_char c div 16), hex_char (of_char c mod 16)]
      else [c])"

text \<open>\<open>repr(s)\<close> for a \<open>str\<close>: single quotes, unless the string holds a single quote and
  no double quote. Characters outside ASCII are kept, which is what Python does for the
  printable ones.\<close>

definition repr_str :: "string \<Rightarrow> string" where
  "repr_str s =
     (let q = (if CHR 0x27 \<in> set s \<and> CHR 0x22 \<notin> set s then CHR 0x22 else CHR 0x27)
      in q # concat (map (repr_char q) s) @ [q])"

fun py_repr :: "py \<Rightarrow> string" where
  "py_repr PNone = ''None''"
| "py_repr (PBool b) = (if b then ''True'' else ''False'')"
| "py_repr (PInt i) = show_int i"
| "py_repr (PStr s) = repr_str s"
| "py_repr (PList xs) = ''['' @ join '', '' (map py_repr xs) @ '']''"
| "py_repr (PDict kvs) =
     ''{'' @ join '', '' (map (\<lambda>kv. repr_str (fst kv) @ '': '' @ py_repr (snd kv)) kvs) @ ''}''"

text \<open>\<open>str(v)\<close>, which is also what an f-string field \<open>{v}\<close> renders.\<close>

definition py_str :: "py \<Rightarrow> string" where
  "py_str v = (case v of PStr s \<Rightarrow> s | _ \<Rightarrow> py_repr v)"

subsection \<open>Iteration, membership and dictionary access\<close>

text \<open>\<open>for x in v\<close>: the elements of a list, the keys of a dict, the characters of a
  string (each byte as a one-character string; the program never looks inside them);
  \<open>TypeError\<close> for anything else.\<close>

definition py_iter :: "py \<Rightarrow> py_error + py list" where
  "py_iter v =
     (case v of
        PList xs \<Rightarrow> Inr xs
      | PDict kvs \<Rightarrow> Inr (map (\<lambda>kv. PStr (fst kv)) kvs)
      | PStr s \<Rightarrow> Inr (map (\<lambda>c. PStr [c]) s)
      | _ \<Rightarrow> Inl TypeError)"

text \<open>\<open>k in v\<close> for a string \<open>k\<close>.\<close>

definition py_contains :: "string \<Rightarrow> py \<Rightarrow> py_error + bool" where
  "py_contains k v =
     (case v of
        PDict kvs \<Rightarrow> Inr (k \<in> set (map fst kvs))
      | PList xs \<Rightarrow> Inr (PStr k \<in> set xs)
      | PStr s \<Rightarrow> Inr (contains_str k s)
      | _ \<Rightarrow> Inl TypeError)"

text \<open>\<open>v[k]\<close> for a string \<open>k\<close>.\<close>

definition py_getitem :: "py \<Rightarrow> string \<Rightarrow> py_error + py" where
  "py_getitem v k =
     (case v of
        PDict kvs \<Rightarrow> (case map_of kvs k of None \<Rightarrow> Inl KeyError | Some x \<Rightarrow> Inr x)
      | _ \<Rightarrow> Inl TypeError)"

text \<open>\<open>v.get(k, d)\<close>: only a dict has the method.\<close>

definition py_get :: "py \<Rightarrow> string \<Rightarrow> py \<Rightarrow> py_error + py" where
  "py_get v k d =
     (case v of
        PDict kvs \<Rightarrow> (case map_of kvs k of None \<Rightarrow> Inr d | Some x \<Rightarrow> Inr x)
      | _ \<Rightarrow> Inl AttributeError)"

text \<open>Sequencing of computations that may raise.\<close>

definition bind_e :: "'e + 'a \<Rightarrow> ('a \<Rightarrow> 'e + 'b) \<Rightarrow> 'e + 'b" where
  "bind_e m f = (case m of Inl e \<Rightarrow> Inl e | Inr x \<Rightarrow> f x)"

section \<open>Protocol and port compatibility\<close>

definition protocols_without_port :: "string list" where
  "protocols_without_port = [''icmp'', ''igmp'', ''esp'', ''ah'', ''ip'', ''ipv6-icmp'']"

definition msg_proto :: string where
  "msg_proto = [CHR 0xE5, CHR 0x8D, CHR 0x8F, CHR 0xE8, CHR 0xAE, CHR 0xAE, CHR '' '', CHR 0x27]"

definition msg_no_port :: string where
  "msg_no_port = [CHR 0x27, CHR '' '', CHR 0xE4, CHR 0xB8, CHR 0x8D, CHR 0xE9, CHR 0x9C, CHR 0x80,
     CHR 0xE8, CHR 0xA6, CHR 0x81, CHR 0xE7, CHR 0xAB, CHR 0xAF, CHR 0xE5, CHR 0x8F, CHR 0xA3,
     CHR 0xE5, CHR 0x8F, CHR 0x82, CHR 0xE6, CHR 0x95, CHR 0xB0]"

definition msg_single :: string where
  "msg_single = [CHR 0x27, CHR '' '', CHR 0xE9, CHR 0x9C, CHR 0x80, CHR 0xE8, CHR 0xA6, CHR 0x81,
     CHR 0xE6, CHR 0x8C, CHR 0x87, CHR 0xE5, CHR 0xAE, CHR 0x9A, CHR 0xE5, CHR 0x8D, CHR 0x95,
     CHR 0xE4, CHR 0xB8, CHR 0xAA, CHR 0xE7, CHR 0xAB, CHR 0xAF, CHR 0xE5, CHR 0x8F, CHR 0xA3]"

definition msg_ok :: string where
  "msg_ok = [CHR 0xE9, CHR 0xAA, CHR 0x8C, CHR 0xE8, CHR 0xAF, CHR 0x81, CHR 0xE9, CHR 0x80,
     CHR 0x9A, CHR 0xE8, CHR 0xBF, CHR 0x87]"

text \<open>\<open>isinstance(port, list) and len(port) > 1\<close>.\<close>

definition is_multi_list :: "py \<Rightarrow> bool" where
  "is_multi_list port = (case port of PList xs \<Rightarrow> length xs > 1 | _ \<Rightarrow> False)"

text \<open>\<open>validate_protocol_port(protocol, port)\<close> returns the pair (valid, message). The
  three messages read: the protocol needs no port argument; the protocol needs one
  single port; validation passed.\<close>

definition validate_protocol_port :: "string \<Rightarrow> py \<Rightarrow> bool \<times> string" where
  "validate_protocol_port protocol port =
     (if lower protocol \<in> set protocols_without_port then
        (False, msg_proto @ protocol @ msg_no_port)
      else if port = PNone \<or> is_multi_list port then
        (False, msg_proto @ protocol @ msg_single)
      else (True, msg_ok))"

section \<open>Command generation\<close>

definition add_rule_prefix :: string where
  "add_rule_prefix = ''nft add rule ip filter input ''"

text \<open>The last step of ad-hoc generation: \<open>if ip_address:\<close> decides whether the
  destination-address clause is put ahead of the port part.\<close>

definition address_command :: "string \<Rightarrow> string option \<Rightarrow> string \<Rightarrow> string" where
  "address_command action ip_address port_part =
     (case ip_address of
        Some a \<Rightarrow>
          (if a \<noteq> [] then add_rule_prefix @ ''ip daddr '' @ a @ '' '' @ port_part @ '' '' @ action
           else add_rule_prefix @ port_part @ '' '' @ action)
      | None \<Rightarrow> add_rule_prefix @ port_part @ '' '' @ action)"

text \<open>\<open>generate_nft_command(action, protocol, port, is_full_mode, ip_address)\<close>. The
  result is \<open>Inl\<close> when the call raises, \<open>Inr None\<close> when it returns \<open>None\<close> and
  \<open>Inr (Some commands)\<close> when it returns the list of commands.\<close>

definition generate_nft_command ::
  "string \<Rightarrow> string \<Rightarrow> py \<Rightarrow> bool \<Rightarrow> string option \<Rightarrow> py_error + string list option" where
  "generate_nft_command action protocol port is_full_mode ip_address =
     (if is_full_mode then
        (if port = PStr ''53'' \<and> protocol = ''both'' then
           Inr (Some [add_rule_prefix @ ''tcp dport 53 '' @ action,
                      add_rule_prefix @ ''udp dport 53 '' @ action])
         else
           bind_e (py_iter port) (\<lambda>ps.
             Inr (Some (map (\<lambda>p. add_rule_prefix
                                   @ (if protocol = ''tcp'' then ''tcp dport '' @ py_str p
                                      else ''udp dport '' @ py_str p)
                                   @ '' '' @ action) ps))))
      else if lower protocol = ''icmp'' \<or> lower protocol = ''ipv6-icmp'' then
        Inr (Some [add_rule_prefix @ protocol @ '' '' @ action])
      else if CHR ''-'' \<in> set (py_str port) then
        (case split_on CHR ''-'' (py_str port) of
           [start, end] \<Rightarrow>
             bind_e (py_int_of_str (strip start)) (\<lambda>start_port.
             bind_e (py_int_of_str (strip end)) (\<lambda>end_port.
               if start_port > end_port then Inr None
               else Inr (Some [address_command action ip_address
                      (if protocol = ''tcp''
                       then ''tcp dport '' @ show_int start_port @ '':'' @ show_int end_port
                       else ''udp dport '' @ show_int start_port @ '':'' @ show_int end_port)])))
         | _ \<Rightarrow> Inl ValueError)
      else
        Inr (Some [address_command action ip_address (protocol @ '' dport '' @ py_str port)]))"

text \<open>The service catalogue of \<open>get_full_protocol_mode\<close>: protocol and ports of each
  preset, as the menu hands them to the generator.\<close>

datatype preset = Web | Ssh | Mail | Database | Ftp | Dns

fun preset_protocol :: "preset \<Rightarrow> string" where
  "preset_protocol Dns = ''both''"
| "preset_protocol _ = ''tcp''"

fun preset_ports :: "preset \<Rightarrow> py" where
  "preset_ports Web = PList [PStr ''80'', PStr ''443'']"
| "preset_ports Ssh = PList [PStr ''22'']"
| "preset_ports Mail = PList [PStr ''25'', PStr ''110'', PStr ''143'', PStr ''993'', PStr ''995'']"
| "preset_ports Database = PList [PStr ''3306'', PStr ''5432'', PStr ''27017'']"
| "preset_ports Ftp = PList [PStr ''21'']"
| "preset_ports Dns = PList [PStr ''53'']"

text \<open>What \<open>main\<close> does with the result of ad-hoc generation: on \<open>None\<close> it prints
  that the port range is invalid and goes back to the menu, otherwise it hands the
  commands to \<open>execute_command\<close>.\<close>

datatype menu_step = BackToMenu | Execute "string list"

definition handle_generated :: "string list option \<Rightarrow> menu_step" where
  "handle_generated commands = (case commands of None \<Rightarrow> BackToMenu | Some cs \<Rightarrow> Execute cs)"

section \<open>Formatting a rule expression\<close>

definition empty_rule :: string where
  "empty_rule = [CHR ''('', CHR 0xE7, CHR 0xA9, CHR 0xBA, CHR 0xE8, CHR 0xA7, CHR 0x84,
     CHR 0xE5, CHR 0x88, CHR 0x99, CHR '')'']"

definition complex_rule :: string where
  "complex_rule = [CHR ''('', CHR 0xE5, CHR 0xA4, CHR 0x8D, CHR 0xE6, CHR 0x9D, CHR 0x82,
     CHR 0xE8, CHR 0xA7, CHR 0x84, CHR 0xE5, CHR 0x88, CHR 0x99, CHR '')'']"

definition port_label :: string where
  "port_label = [CHR 0xE7, CHR 0xAB, CHR 0xAF, CHR 0xE5, CHR 0x8F, CHR 0xA3]"

definition lbl_accept :: string where
  "lbl_accept = [CHR 0xE6, CHR 0x94, CHR 0xBE, CHR 0xE8, CHR 0xA1, CHR 0x8C]"

definition lbl_deny :: string where
  "lbl_deny = [CHR 0xE6, CHR 0x8B, CHR 0x92, CHR 0xE7, CHR 0xBB, CHR 0x9D]"

definition lbl_snat :: string where
  "lbl_snat = [CHR 0xE6, CHR 0xBA, CHR 0x90, CHR ''N'', CHR ''A'', CHR ''T'']"

definition lbl_dnat :: string where
  "lbl_dnat = [CHR 0xE7, CHR 0x9B, CHR 0xAE, CHR 0xE6, CHR 0xA0, CHR 0x87, CHR ''N'', CHR ''A'', CHR ''T'']"

definition lbl_masquerade :: string where
  "lbl_masquerade = [CHR 0xE4, CHR 0xBC, CHR 0xAA, CHR 0xE8, CHR 0xA3, CHR 0x85]"

definition lbl_redir :: string where
  "lbl_redir = [CHR 0xE9, CHR 0x87, CHR 0x8D, CHR 0xE5, CHR 0xAE, CHR 0x9A, CHR 0xE5, CHR 0x90, CHR 0x91]"

definition lbl_return :: string where
  "lbl_return = [CHR 0xE8, CHR 0xBF, CHR 0x94, CHR 0xE5, CHR 0x9B, CHR 0x9E]"

definition counter_pre :: string where
  "counter_pre = [CHR 0xE8, CHR 0xAE, CHR 0xA1, CHR 0xE6, CHR 0x95, CHR 0xB0, CHR 0xE5, CHR 0x99,
     CHR 0xA8, CHR '':'', CHR '' '']"

definition counter_mid :: string where
  "counter_mid = [CHR 0xE5, CHR 0x8C, CHR 0x85, CHR '' '']"

definition counter_suf :: string where
  "counter_suf = [CHR 0xE5, CHR 0xAD, CHR 0x97, CHR 0xE8, CHR 0x8A, CHR 0x82]"

definition jump_pre :: string where
  "jump_pre = [CHR 0xE8, CHR 0xB7, CHR 0xB3, CHR 0xE8, CHR 0xBD, CHR 0xAC, CHR 0xE5, CHR 0x88,
     CHR 0xB0, CHR '' '']"

text \<open>The three variables the loop of \<open>format_rule_expression\<close> updates.\<close>

record fmt_state =
  fs_parts :: "string list"
  fs_port_info :: string
  fs_action :: string

definition init_state :: fmt_state where
  "init_state = \<lparr>fs_parts = [], fs_port_info = [], fs_action = []\<rparr>"

definition add_part :: "string \<Rightarrow> fmt_state \<Rightarrow> fmt_state" where
  "add_part p st = st\<lparr>fs_parts := fs_parts st @ [p]\<rparr>"

text \<open>\<open>neg_str = '!' if negate else ''\<close>.\<close>

definition neg_str_of :: "py \<Rightarrow> string" where
  "neg_str_of negate = (if truthy negate then ''!'' else [])"

text \<open>\<open>field in ['dport', 'sport']\<close>.\<close>

definition is_port_field :: "py \<Rightarrow> bool" where
  "is_port_field field = (field = PStr ''dport'' \<or> field = PStr ''sport'')"

text \<open>What the branches for match, relational and cmp read from their node before they
  decide: op, right, the negation mark, and protocol and field of the left payload.
  The default of \<open>right\<close> is the empty string for match and relational and the empty
  dict for cmp.\<close>

record operands =
  od_op :: py
  od_right :: py
  od_neg :: string
  od_protocol :: py
  od_field :: py

definition read_operands :: "py \<Rightarrow> py \<Rightarrow> py_error + operands" where
  "read_operands node right_default =
     bind_e (py_get node ''op'' (PStr [])) (\<lambda>op.
     bind_e (py_get node ''left'' (PDict [])) (\<lambda>left.
     bind_e (py_get node ''right'' right_default) (\<lambda>right.
     bind_e (py_get node ''negate'' (PBool False)) (\<lambda>negate.
     bind_e (py_get left ''payload'' (PDict [])) (\<lambda>payload.
     bind_e (py_get payload ''protocol'' (PStr [])) (\<lambda>protocol.
     bind_e (py_get payload ''field'' (PStr [])) (\<lambda>field.
       Inr \<lparr>od_op = op, od_right = right, od_neg = neg_str_of negate,
            od_protocol = protocol, od_field = field\<rparr>)))))))"

text \<open>The normalisation of the right operand in the relational and cmp branches: a
  string stays, \<open>{'val': x}\<close> gives \<open>x\<close>, \<open>{'prefix': {...}}\<close> gives \<open>addr/len\<close>, anything
  else its \<open>str\<close>. The default of \<open>len\<close> is 0 for relational and the empty string for cmp.\<close>

definition prefix_text :: "py \<Rightarrow> py \<Rightarrow> py_error + string" where
  "prefix_text prefix len_default =
     bind_e (py_get prefix ''addr'' (PStr [])) (\<lambda>addr.
     bind_e (py_get prefix ''len'' len_default) (\<lambda>len.
       Inr (py_str addr @ ''/'' @ py_str len)))"

definition right_value :: "py \<Rightarrow> py \<Rightarrow> py_error + py" where
  "right_value right len_default =
     (case right of
        PStr s \<Rightarrow> Inr right
      | PDict kvs \<Rightarrow>
          if ''val'' \<in> set (map fst kvs) then py_getitem right ''val''
          else if ''prefix'' \<in> set (map fst kvs) then
            bind_e (py_getitem right ''prefix'') (\<lambda>prefix.
            bind_e (prefix_text prefix len_default) (\<lambda>t. Inr (PStr t)))
          else Inr (PStr (py_str right))
      | _ \<Rightarrow> Inr (PStr (py_str right)))"

definition format_match :: "py \<Rightarrow> fmt_state \<Rightarrow> py_error + fmt_state" where
  "format_match expr st =
     bind_e (py_get expr ''match'' (PDict [])) (\<lambda>match.
     bind_e (read_operands match (PStr [])) (\<lambda>od.
       if is_port_field (od_field od) then
         Inr (st\<lparr>fs_port_info := od_neg od @ port_label @ '' '' @ py_str (od_right od)\<rparr>)
       else if truthy (od_protocol od) \<and> truthy (od_field od) then
         Inr (add_part (od_neg od @ py_str (od_protocol od) @ '' '' @ py_str (od_field od)
                        @ '' '' @ py_str (od_right od)) st)
       else if truthy (od_right od) then
         Inr (add_part (od_neg od @ py_str (od_op od) @ '' '' @ py_str (od_right od)) st)
       else Inr st))"

definition format_relational :: "py \<Rightarrow> fmt_state \<Rightarrow> py_error + fmt_state" where
  "format_relational expr st =
     bind_e (py_get expr ''relational'' (PDict [])) (\<lambda>rel_expr.
     bind_e (read_operands rel_expr (PStr [])) (\<lambda>od.
     bind_e (right_value (od_right od) (PInt 0)) (\<lambda>right_val.
       if is_port_field (od_field od) then
         Inr (st\<lparr>fs_port_info := od_neg od @ port_label @ '' '' @ py_str right_val\<rparr>)
       else if od_protocol od = PStr ''ip'' \<and> od_field od = PStr ''daddr'' then
         Inr (add_part (od_neg od @ ''ip daddr '' @ py_str right_val) st)
       else if truthy (od_protocol od) \<and> truthy (od_field od) then
         Inr (add_part (od_neg od @ py_str (od_protocol od) @ '' '' @ py_str (od_field od)
                        @ '' '' @ py_str right_val) st)
       else if truthy (od_field od) then
         Inr (add_part (od_neg od @ py_str (od_field od) @ '' '' @ py_str right_val) st)
       else if truthy right_val then
         Inr (add_part (od_neg od @ py_str (od_op od) @ '' '' @ py_str right_val) st)
       else Inr st)))"

definition format_cmp :: "py \<Rightarrow> fmt_state \<Rightarrow> py_error + fmt_state" where
  "format_cmp expr st =
     bind_e (py_get expr ''cmp'' (PDict [])) (\<lambda>cmp_expr.
     bind_e (read_operands cmp_expr (PDict [])) (\<lambda>od.
     bind_e (right_value (od_right od) (PStr [])) (\<lambda>right_val.
       if is_port_field (od_field od) then
         Inr (st\<lparr>fs_port_info := od_neg od @ port_label @ '' '' @ py_str right_val\<rparr>)
       else if truthy (od_protocol od) \<and> truthy (od_field od) then
         Inr (add_part (od_neg od @ py_str (od_protocol od) @ '' '' @ py_str (od_field od)
                        @ '' '' @ py_str right_val) st)
       else if truthy (od_field od) \<and> truthy right_val then
         Inr (add_part (od_neg od @ py_str (od_field od) @ '' '' @ py_str right_val) st)
       else if truthy right_val then
         Inr (add_part (od_neg od @ py_str (od_op od) @ '' '' @ py_str right_val) st)
       else Inr st)))"

definition format_payload :: "py \<Rightarrow> fmt_state \<Rightarrow> py_error + fmt_state" where
  "format_payload expr st =
     bind_e (py_get expr ''payload'' (PDict [])) (\<lambda>payload.
     bind_e (py_get payload ''protocol'' (PStr [])) (\<lambda>protocol.
     bind_e (py_get payload ''field'' (PStr [])) (\<lambda>field.
     bind_e (py_get payload ''value'' (PStr [])) (\<lambda>val.
       if is_port_field field then
         Inr (st\<lparr>fs_port_info := port_label @ '' '' @ py_str val\<rparr>)
       else if truthy protocol \<and> truthy field then
         Inr (add_part (py_str protocol @ '' '' @ py_str field @ '' '' @ py_str val) st)
       else Inr st))))"

text \<open>The meta branch: the key is appended first; a left operand that is itself a meta
  node replaces the last part (\<open>parts[-1] = ...\<close>, an \<open>IndexError\<close> when there is none);
  then the right operand is appended when it is a string, a \<open>val\<close> or a \<open>prefix\<close>.\<close>

definition meta_left :: "string \<Rightarrow> py \<Rightarrow> string list \<Rightarrow> py_error + string list" where
  "meta_left neg left ps =
     (if \<not> truthy left then Inr ps
      else (case left of
              PDict ((left_type, v) # rest) \<Rightarrow>
                if left_type = ''meta'' then
                  bind_e (py_getitem left ''meta'') (\<lambda>inner.
                  bind_e (py_get inner ''key'' (PStr [])) (\<lambda>left_key.
                    if truthy left_key then
                      (if ps = [] then Inl IndexError
                       else Inr (butlast ps @ [neg @ py_str left_key]))
                    else Inr ps))
                else Inr ps
            | _ \<Rightarrow> Inl AttributeError))"

definition meta_right :: "string \<Rightarrow> py \<Rightarrow> string list \<Rightarrow> py_error + string list" where
  "meta_right neg right ps =
     (case right of
        PStr s \<Rightarrow> Inr (ps @ [neg @ s])
      | PDict kvs \<Rightarrow>
          if ''val'' \<in> set (map fst kvs) then
            bind_e (py_getitem right ''val'') (\<lambda>v. Inr (ps @ [neg @ py_str v]))
          else if ''prefix'' \<in> set (map fst kvs) then
            bind_e (py_getitem right ''prefix'') (\<lambda>prefix.
            bind_e (prefix_text prefix (PStr [])) (\<lambda>t. Inr (ps @ [neg @ t])))
          else Inr ps
      | _ \<Rightarrow> Inr ps)"

definition format_meta :: "py \<Rightarrow> fmt_state \<Rightarrow> py_error + fmt_state" where
  "format_meta expr st =
     bind_e (py_get expr ''meta'' (PDict [])) (\<lambda>meta.
     bind_e (py_get meta ''key'' (PStr [])) (\<lambda>key.
     bind_e (py_get meta ''negate'' (PBool False)) (\<lambda>negate.
     bind_e (py_get meta ''left'' (PDict [])) (\<lambda>left.
     bind_e (py_get meta ''right'' (PStr [])) (\<lambda>right.
     bind_e (meta_left (neg_str_of negate) left
               (if truthy key then fs_parts st @ [''meta '' @ py_str key] else fs_parts st))
       (\<lambda>ps1.
     bind_e (meta_right (neg_str_of negate) right ps1) (\<lambda>ps2.
       Inr (st\<lparr>fs_parts := ps2\<rparr>))))))))"

definition format_ct :: "py \<Rightarrow> fmt_state \<Rightarrow> py_error + fmt_state" where
  "format_ct expr st =
     bind_e (py_get expr ''ct'' (PDict [])) (\<lambda>ct.
     bind_e (py_get ct ''direction'' (PStr [])) (\<lambda>direction.
     bind_e (py_get ct ''key'' (PStr [])) (\<lambda>key.
     bind_e (py_get ct ''value'' (PStr [])) (\<lambda>val.
       if truthy direction \<and> truthy key then
         Inr (add_part (''ct '' @ py_str direction @ '' '' @ py_str key) st)
       else if truthy key then Inr (add_part (''ct '' @ py_str key) st)
       else Inr st))))"

definition format_counter :: "py \<Rightarrow> fmt_state \<Rightarrow> py_error + fmt_state" where
  "format_counter expr st =
     bind_e (py_get expr ''counter'' (PDict [])) (\<lambda>counter.
     bind_e (py_get counter ''packets'' (PInt 0)) (\<lambda>packets.
     bind_e (py_get counter ''bytes'' (PInt 0)) (\<lambda>bytes_count.
       Inr (add_part (counter_pre @ py_str packets @ counter_mid @ py_str bytes_count
                      @ counter_suf) st))))"

definition format_jump :: "py \<Rightarrow> fmt_state \<Rightarrow> py_error + fmt_state" where
  "format_jump expr st =
     bind_e (py_get expr ''jump'' (PDict [])) (\<lambda>jump.
     bind_e (py_get jump ''target'' (PStr [])) (\<lambda>target.
       if truthy target then Inr (add_part (jump_pre @ py_str target) st) else Inr st))"

definition format_xt :: "py \<Rightarrow> fmt_state \<Rightarrow> py_error + fmt_state" where
  "format_xt expr st =
     bind_e (py_get expr ''xt'' (PDict [])) (\<lambda>xt.
     bind_e (py_get xt ''target'' (PStr [])) (\<lambda>target.
       if truthy target then Inr (add_part (''['' @ py_str target @ '']'') st) else Inr st))"

text \<open>One turn of the loop. A falsy node is skipped; \<open>list(expr.keys())[0]\<close> is the first
  key of a dict and raises \<open>AttributeError\<close> for any other truthy value; a kind that is
  not listed leaves the three variables as they are.\<close>

definition format_node :: "py \<Rightarrow> fmt_state \<Rightarrow> py_error + fmt_state" where
  "format_node expr st =
     (if \<not> truthy expr then Inr st
      else (case expr of
              PDict ((expr_type, v) # rest) \<Rightarrow>
                if expr_type = ''match'' then format_match expr st
                else if expr_type = ''relational'' then format_relational expr st
                else if expr_type = ''cmp'' then format_cmp expr st
                else if expr_type = ''payload'' then format_payload expr st
                else if expr_type = ''meta'' then format_meta expr st
                else if expr_type = ''ct'' then format_ct expr st
                else if expr_type = ''accept'' then Inr (st\<lparr>fs_action := lbl_accept\<rparr>)
                else if expr_type = ''drop'' then Inr (st\<lparr>fs_action := lbl_deny\<rparr>)
                else if expr_type = ''reject'' then Inr (st\<lparr>fs_action := lbl_deny\<rparr>)
                else if expr_type = ''log'' then Inr (add_part ''LOG'' st)
                else if expr_type = ''counter'' then format_counter expr st
                else if expr_type = ''jump'' then format_jump expr st
                else if expr_type = ''return'' then Inr (add_part lbl_return st)
                else if expr_type = ''xt'' then format_xt expr st
                else if expr_type = ''snat'' then Inr (st\<lparr>fs_action := lbl_snat\<rparr>)
                else if expr_type = ''dnat'' then Inr (st\<lparr>fs_action := lbl_dnat\<rparr>)
                else if expr_type = ''masquerade'' then Inr (st\<lparr>fs_action := lbl_masquerade\<rparr>)
                else if expr_type = ''redir'' then Inr (st\<lparr>fs_action := lbl_redir\<rparr>)
                else Inr st
            | _ \<Rightarrow> Inl AttributeError))"

fun format_loop :: "py list \<Rightarrow> fmt_state \<Rightarrow> py_error + fmt_state" where
  "format_loop [] st = Inr st"
| "format_loop (expr # rest) st =
     (case format_node expr st of
        Inl e \<Rightarrow> Inl e
      | Inr st' \<Rightarrow> format_loop rest st')"

text \<open>The assembly after the loop: port first, then the parts joined by spaces, then the
  action.\<close>

definition result_parts :: "fmt_state \<Rightarrow> string list" where
  "result_parts st =
     (if fs_port_info st \<noteq> [] then [fs_port_info st] else [])
     @ (if fs_parts st \<noteq> [] then [join '' '' (fs_parts st)] else [])
     @ (if fs_action st \<noteq> [] then [fs_action st] else [])"

definition assemble :: "fmt_state \<Rightarrow> string" where
  "assemble st =
     (if result_parts st \<noteq> [] then join '' '' (result_parts st)
      else if fs_parts st \<noteq> [] then join '' '' (fs_parts st)
      else complex_rule)"

definition format_rule_expression :: "py \<Rightarrow> py_error + string" where
  "format_rule_expression expr_list =
     (if \<not> truthy expr_list then Inr empty_rule
      else bind_e (py_iter expr_list) (\<lambda>exprs.
           bind_e (format_loop exprs init_state) (\<lambda>st. Inr (assemble st))))"

text \<open>The payload field a node of the kinds match, relational, cmp and payload is tested
  on, read the way its branch reads it; \<open>None\<close> for the other kinds and for a node whose
  operands cannot be read.\<close>

definition node_field :: "py \<Rightarrow> py option" where
  "node_field expr =
     (case expr of
        PDict ((expr_type, v) # rest) \<Rightarrow>
          if expr_type = ''match'' \<or> expr_type = ''relational'' then
            (case read_operands v (PStr []) of Inr od \<Rightarrow> Some (od_field od) | Inl e \<Rightarrow> None)
          else if expr_type = ''cmp'' then
            (case read_operands v (PDict []) of Inr od \<Rightarrow> Some (od_field od) | Inl e \<Rightarrow> None)
          else if expr_type = ''payload'' then
            (case py_get v ''field'' (PStr []) of Inr field \<Rightarrow> Some field | Inl e \<Rightarrow> None)
          else None
      | _ \<Rightarrow> None)"

definition is_port_node :: "py \<Rightarrow> bool" where
  "is_port_node expr = (case node_field expr of Some field \<Rightarrow> is_port_field field | None \<Rightarrow> False)"

text \<open>The port descriptor a node produces when it is formatted alone.\<close>

definition node_port_info :: "py \<Rightarrow> string" where
  "node_port_info expr =
     (case format_node expr init_state of Inr st \<Rightarrow> fs_port_info st | Inl e \<Rightarrow> [])"

section \<open>Queries over the ruleset dump\<close>

text \<open>
  The queries run \<open>nft -j list ruleset\<close> and parse its output. The process and the JSON
  parser are outside the program: the outcome of the process is a value of \<open>nft_dump\<close>
  and \<open>json.loads\<close> is the parameter \<open>loads\<close>. Every query catches \<open>Exception\<close> and
  returns \<open>None\<close>, so its result is an option.
\<close>

datatype nft_dump = RunRaised | Exited int string

definition load_dump :: "(string \<Rightarrow> py_error + py) \<Rightarrow> nft_dump \<Rightarrow> py option" where
  "load_dump loads dump =
     (case dump of
        RunRaised \<Rightarrow> None
      | Exited returncode out \<Rightarrow>
          if returncode \<noteq> 0 then None
          else (case loads out of Inl e \<Rightarrow> None | Inr ruleset_data \<Rightarrow> Some ruleset_data))"

text \<open>\<open>int(v)\<close>.\<close>

definition py_int :: "py \<Rightarrow> py_error + int" where
  "py_int v =
     (case v of
        PInt i \<Rightarrow> Inr i
      | PBool b \<Rightarrow> Inr (if b then 1 else 0)
      | PStr s \<Rightarrow> py_int_of_str s
      | _ \<Rightarrow> Inl TypeError)"

text \<open>\<open>isinstance(v, int)\<close>: a \<open>bool\<close> is an \<open>int\<close>.\<close>

definition is_int :: "py \<Rightarrow> bool" where
  "is_int v = (case v of PInt i \<Rightarrow> True | PBool b \<Rightarrow> True | _ \<Rightarrow> False)"

text \<open>The inner loop of \<open>search_rules_by_port\<close>: the \<open>port_info\<close> of the first match
  node whose payload is the protocol's \<open>dport\<close> and whose right operand is the port
  (the loop breaks there), \<open>None\<close> when \<open>has_port_match\<close> stays false.\<close>

fun find_port_match :: "string \<Rightarrow> int \<Rightarrow> py list \<Rightarrow> py_error + string option" where
  "find_port_match protocol port_int [] = Inr None"
| "find_port_match protocol port_int (e # es) =
     bind_e (py_contains ''match'' e) (\<lambda>is_match.
       if is_match then
         bind_e (py_getitem e ''match'') (\<lambda>match.
         bind_e (py_get match ''left'' (PDict [])) (\<lambda>left.
         bind_e (py_get match ''right'' (PStr [])) (\<lambda>right.
         bind_e (py_get left ''payload'' (PDict [])) (\<lambda>payload.
         bind_e (py_get payload ''protocol'' (PStr [])) (\<lambda>proto.
         bind_e (py_get payload ''field'' (PStr [])) (\<lambda>field.
           if proto = PStr protocol \<and> field = PStr ''dport'' then
             bind_e (py_int right) (\<lambda>right_int.
               if right_int = port_int then
                 Inr (Some (py_str proto @ '' dport ''
                            @ py_str (if is_int right then right else PInt right_int)))
               else find_port_match protocol port_int es)
           else find_port_match protocol port_int es))))))
       else find_port_match protocol port_int es)"

record match_record =
  mr_family :: py
  mr_table :: py
  mr_chain :: py
  mr_rule :: string
  mr_port_info :: string
  mr_handle :: py

fun search_items :: "string \<Rightarrow> int \<Rightarrow> py list \<Rightarrow> py_error + match_record list" where
  "search_items protocol port_int [] = Inr []"
| "search_items protocol port_int (item # items) =
     bind_e (py_contains ''rule'' item) (\<lambda>is_rule.
       if is_rule then
         bind_e (py_getitem item ''rule'') (\<lambda>rule.
         bind_e (py_get rule ''expr'' (PList [])) (\<lambda>expr.
         bind_e (py_get rule ''family'' (PStr [])) (\<lambda>rule_family.
         bind_e (py_get rule ''table'' (PStr [])) (\<lambda>rule_table.
         bind_e (py_get rule ''chain'' (PStr [])) (\<lambda>rule_chain.
         bind_e (py_iter expr) (\<lambda>es.
         bind_e (find_port_match protocol port_int es) (\<lambda>found.
           (case found of
              None \<Rightarrow> search_items protocol port_int items
            | Some port_info \<Rightarrow>
                bind_e (format_rule_expression expr) (\<lambda>desc.
                bind_e (py_get rule ''handle'' (PStr [])) (\<lambda>handle.
                bind_e (search_items protocol port_int items) (\<lambda>matches.
                  Inr (\<lparr>mr_family = rule_family, mr_table = rule_table, mr_chain = rule_chain,
                        mr_rule = desc, mr_port_info = port_info, mr_handle = handle\<rparr>
                       # matches))))))))))))
       else search_items protocol port_int items)"

definition search_rules_by_port ::
  "(string \<Rightarrow> py_error + py) \<Rightarrow> nft_dump \<Rightarrow> py \<Rightarrow> string \<Rightarrow> match_record list option" where
  "search_rules_by_port loads dump port protocol =
     (case load_dump loads dump of
        None \<Rightarrow> None
      | Some ruleset_data \<Rightarrow>
          (case bind_e (py_int port) (\<lambda>port_int.
                bind_e (py_get ruleset_data ''nftables'' (PList [])) (\<lambda>forest.
                bind_e (py_iter forest) (\<lambda>items.
                  search_items protocol port_int items))) of
             Inl e \<Rightarrow> None
           | Inr matches \<Rightarrow> Some matches))"

text \<open>
  The notions in which the result of the search is stated. They are defined apart from
  the loops of the search.

  A node matches when it is a dict with the key \<open>match\<close> whose left payload has the
  protocol searched for and the field \<open>dport\<close> and whose right operand is, for
  \<open>int()\<close>, the port.
\<close>

definition node_matches :: "string \<Rightarrow> int \<Rightarrow> py \<Rightarrow> bool" where
  "node_matches protocol port_int e =
     (case bind_e (py_getitem e ''match'') (\<lambda>match.
           bind_e (py_get match ''left'' (PDict [])) (\<lambda>left.
           bind_e (py_get match ''right'' (PStr [])) (\<lambda>right.
           bind_e (py_get left ''payload'' (PDict [])) (\<lambda>payload.
           bind_e (py_get payload ''protocol'' (PStr [])) (\<lambda>proto.
           bind_e (py_get payload ''field'' (PStr [])) (\<lambda>field.
           bind_e (py_int right) (\<lambda>right_int.
             Inr (proto = PStr protocol \<and> field = PStr ''dport''
                  \<and> right_int = port_int)))))))) of
        Inr b \<Rightarrow> b
      | Inl e \<Rightarrow> False)"

text \<open>The nodes of the expression list of a rule entry (none for another entry), and the
  entries that are rules with a matching node.\<close>

definition entry_nodes :: "py \<Rightarrow> py list" where
  "entry_nodes item =
     (case bind_e (py_getitem item ''rule'') (\<lambda>rule.
           bind_e (py_get rule ''expr'' (PList [])) (\<lambda>expr. py_iter expr)) of
        Inr es \<Rightarrow> es
      | Inl e \<Rightarrow> [])"

definition rule_matches :: "string \<Rightarrow> int \<Rightarrow> py \<Rightarrow> bool" where
  "rule_matches protocol port_int item = list_ex (node_matches protocol port_int) (entry_nodes item)"

text \<open>The record that stands for a rule entry: its family, table, chain and handle as
  \<open>rule.get\<close> gives them, its formatted description, and the protocol and port searched
  for as \<open>port_info\<close>.\<close>

definition entry_field :: "string \<Rightarrow> py \<Rightarrow> py" where
  "entry_field k item =
     (case bind_e (py_getitem item ''rule'') (\<lambda>rule. py_get rule k (PStr [])) of
        Inr v \<Rightarrow> v
      | Inl e \<Rightarrow> PNone)"

definition entry_description :: "py \<Rightarrow> string" where
  "entry_description item =
     (case bind_e (py_getitem item ''rule'') (\<lambda>rule.
           bind_e (py_get rule ''expr'' (PList [])) (\<lambda>expr.
             format_rule_expression expr)) of
        Inr rule_desc \<Rightarrow> rule_desc
      | Inl e \<Rightarrow> [])"

definition entry_record :: "string \<Rightarrow> int \<Rightarrow> py \<Rightarrow> match_record" where
  "entry_record protocol port_int item =
     \<lparr>mr_family = entry_field ''family'' item, mr_table = entry_field ''table'' item,
      mr_chain = entry_field ''chain'' item, mr_rule = entry_description item,
      mr_port_info = protocol @ '' dport '' @ show_int port_int,
      mr_handle = entry_field ''handle'' item\<rparr>"

text \<open>An entry makes the search raise (and so return \<open>None\<close>) when the search of the dump
  that holds this entry alone raises.\<close>

definition entry_fails :: "string \<Rightarrow> int \<Rightarrow> py \<Rightarrow> bool" where
  "entry_fails protocol port_int item = isl (search_items protocol port_int [item])"

text \<open>A node of the kind match whose operands read as the protocol, the field \<open>dport\<close>
  and the integer port.\<close>

definition port_match_node :: "string \<Rightarrow> int \<Rightarrow> py \<Rightarrow> bool" where
  "port_match_node protocol port_int e =
     (case e of
        PDict ((expr_type, match) # rest) \<Rightarrow>
          expr_type = ''match''
          \<and> (case read_operands match (PStr []) of
                Inr od \<Rightarrow> od_protocol od = PStr protocol \<and> od_field od = PStr ''dport''
                          \<and> od_right od = PInt port_int
              | Inl err \<Rightarrow> False)
      | _ \<Rightarrow> False)"

record summary =
  input_rules :: nat
  input_port_rules :: nat

text \<open>The loop of \<open>get_rule_summary\<close> over the entries of the dump.\<close>

fun summary_loop :: "py list \<Rightarrow> summary \<Rightarrow> py_error + summary" where
  "summary_loop [] sm = Inr sm"
| "summary_loop (item # items) sm =
     bind_e (py_contains ''rule'' item) (\<lambda>is_rule.
       if is_rule then
         bind_e (py_getitem item ''rule'') (\<lambda>rule.
         bind_e (py_get rule ''chain'' PNone) (\<lambda>chain.
         bind_e (py_get rule ''family'' PNone) (\<lambda>family.
         bind_e (py_get rule ''table'' PNone) (\<lambda>table.
           if chain = PStr ''input'' \<and> family = PStr ''ip'' \<and> table = PStr ''filter'' then
             bind_e (py_get rule ''expr'' (PList [])) (\<lambda>expr.
             bind_e (format_rule_expression expr) (\<lambda>rule_desc.
               summary_loop items
                 (if contains_str port_label rule_desc
                  then sm\<lparr>input_rules := input_rules sm + 1,
                          input_port_rules := input_port_rules sm + 1\<rparr>
                  else sm\<lparr>input_rules := input_rules sm + 1\<rparr>)))
           else summary_loop items sm))))
       else summary_loop items sm)"

text \<open>\<open>get_rule_summary(ruleset_data)\<close>: the argument \<open>None\<close> makes it run the query
  itself.\<close>

definition ruleset_source :: "(string \<Rightarrow> py_error + py) \<Rightarrow> nft_dump \<Rightarrow> py \<Rightarrow> py option" where
  "ruleset_source loads dump ruleset_data =
     (if ruleset_data = PNone then load_dump loads dump else Some ruleset_data)"

definition get_rule_summary ::
  "(string \<Rightarrow> py_error + py) \<Rightarrow> nft_dump \<Rightarrow> py \<Rightarrow> summary option" where
  "get_rule_summary loads dump ruleset_data =
     (case ruleset_source loads dump ruleset_data of
        None \<Rightarrow> None
      | Some data \<Rightarrow>
          (case bind_e (py_get data ''nftables'' PNone) (\<lambda>forest.
                  if \<not> truthy forest then Inr \<lparr>input_rules = 0, input_port_rules = 0\<rparr>
                  else bind_e (py_getitem data ''nftables'') (\<lambda>forest'.
                       bind_e (py_iter forest') (\<lambda>items.
                         summary_loop items \<lparr>input_rules = 0, input_port_rules = 0\<rparr>))) of
             Inl e \<Rightarrow> None
           | Inr sm \<Rightarrow> Some sm))"

text \<open>An entry of the dump that both counts of the summary look at: a rule whose chain is
  \<open>input\<close>, family \<open>ip\<close> and table \<open>filter\<close>.\<close>

definition is_managed_rule :: "py \<Rightarrow> bool" where
  "is_managed_rule item =
     (case bind_e (py_contains ''rule'' item) (\<lambda>is_rule.
             if is_rule then
               bind_e (py_getitem item ''rule'') (\<lambda>rule.
               bind_e (py_get rule ''chain'' PNone) (\<lambda>chain.
               bind_e (py_get rule ''family'' PNone) (\<lambda>family.
               bind_e (py_get rule ''table'' PNone) (\<lambda>table.
                 Inr (chain = PStr ''input'' \<and> family = PStr ''ip'' \<and> table = PStr ''filter'')))))
             else Inr False) of
        Inr b \<Rightarrow> b
      | Inl e \<Rightarrow> False)"

text \<open>The description of the rule in an entry contains the port label.\<close>

definition has_port_description :: "py \<Rightarrow> bool" where
  "has_port_description item =
     (case bind_e (py_getitem item ''rule'') (\<lambda>rule.
           bind_e (py_get rule ''expr'' (PList [])) (\<lambda>expr.
             format_rule_expression expr)) of
        Inr rule_desc \<Rightarrow> contains_str port_label rule_desc
      | Inl e \<Rightarrow> False)"

section \<open>Executing the commands\<close>

text \<open>
  \<open>execute_command\<close> runs each command with \<open>subprocess.run\<close> and, after a failure whose
  error text names a missing table or chain, calls \<open>init_nftables_filter_table\<close> and runs
  the command again. The processes are outside the program. Every call the loop makes
  is recorded as an event, and the environment \<open>env\<close> gives the outcome of a process
  from the events so far, the call itself included: so a run may answer differently
  after the tables were initialised. \<open>init_nftables_filter_table\<close> catches its own
  exceptions and its result is not looked at.
\<close>

datatype event = Run "string list" | InitTables

datatype run_outcome = Raised | Completed int string string

type_synonym env = "event list \<Rightarrow> run_outcome"

definition unknown_error :: string where
  "unknown_error = [CHR 0xE6, CHR 0x9C, CHR 0xAA, CHR 0xE7, CHR 0x9F, CHR 0xA5, CHR 0xE9, CHR 0x94,
     CHR 0x99, CHR 0xE8, CHR 0xAF, CHR 0xAF]"

record exec_state =
  es_success_count :: nat
  es_failed_commands :: "string list"
  es_trace :: "event list"

definition init_exec :: exec_state where
  "init_exec = \<lparr>es_success_count = 0, es_failed_commands = [], es_trace = []\<rparr>"

text \<open>\<open>subprocess.run(cmd.split(), capture_output=True, text=True)\<close>.\<close>

definition run_cmd :: "env \<Rightarrow> string \<Rightarrow> event list \<Rightarrow> run_outcome \<times> event list" where
  "run_cmd env cmd tr = (env (tr @ [Run (split_ws cmd)]), tr @ [Run (split_ws cmd)])"

definition succeed :: "event list \<Rightarrow> exec_state \<Rightarrow> exec_state" where
  "succeed tr st = st\<lparr>es_success_count := es_success_count st + 1, es_trace := tr\<rparr>"

definition fail :: "string \<Rightarrow> event list \<Rightarrow> exec_state \<Rightarrow> exec_state" where
  "fail cmd tr st = st\<lparr>es_failed_commands := es_failed_commands st @ [cmd], es_trace := tr\<rparr>"

text \<open>The body of the loop over the commands; an exception of either run is caught and
  the command recorded as failed.\<close>

definition exec_cmd :: "env \<Rightarrow> string \<Rightarrow> exec_state \<Rightarrow> exec_state" where
  "exec_cmd env cmd st =
     (case run_cmd env cmd (es_trace st) of
        (Raised, t1) \<Rightarrow> fail cmd t1 st
      | (Completed returncode out err, t1) \<Rightarrow>
          if returncode = 0 then succeed t1 st
          else
            (let error_msg = (if err \<noteq> [] then strip err else unknown_error) in
             if contains_str ''No such file or directory'' error_msg
                \<or> contains_str ''Could not process rule'' error_msg
             then
               (case run_cmd env cmd (t1 @ [InitTables]) of
                  (Raised, t2) \<Rightarrow> fail cmd t2 st
                | (Completed returncode2 out2 err2, t2) \<Rightarrow>
                    if returncode2 = 0 then succeed t2 st else fail cmd t2 st)
             else fail cmd t1 st))"

fun exec_loop :: "env \<Rightarrow> string list \<Rightarrow> exec_state \<Rightarrow> exec_state" where
  "exec_loop env [] st = st"
| "exec_loop env (cmd # cmds) st = exec_loop env cmds (exec_cmd env cmd st)"

text \<open>The list branch of \<open>execute_command\<close> once the user has confirmed: the result of the
  call is \<open>success_count == len(commands)\<close>.\<close>

definition execute_command :: "env \<Rightarrow> string list \<Rightarrow> bool \<times> exec_state" where
  "execute_command env commands =
     (let st = exec_loop env commands init_exec
      in (es_success_count st = length commands, st))"

text \<open>How the outcome of a run is read: exit status zero, and a failure whose error text
  is of the missing-resource class.\<close>

definition exit_ok :: "run_outcome \<Rightarrow> bool" where
  "exit_ok r = (case r of Completed returncode out err \<Rightarrow> returncode = 0 | Raised \<Rightarrow> False)"

definition missing_resource :: "run_outcome \<Rightarrow> bool" where
  "missing_resource r =
     (case r of
        Completed returncode out err \<Rightarrow>
          returncode \<noteq> 0
          \<and> (contains_str ''No such file or directory'' (strip err)
               \<or> contains_str ''Could not process rule'' (strip err))
      | Raised \<Rightarrow> False)"

section \<open>An example dump\<close>

text \<open>Entries as \<open>nft -j list ruleset\<close> prints them: the metainfo, a rule of the managed
  triple for port 80, and a rule of another family, table and chain for port 22.\<close>

definition sample_match_22 :: py where
  "sample_match_22 = PDict [(''match'', PDict [(''op'', PStr ''==''),
      (''left'', PDict [(''payload'', PDict [(''protocol'', PStr ''tcp''), (''field'', PStr ''dport'')])]),
      (''right'', PInt 22)])]"

definition sample_ssh_rule :: py where
  "sample_ssh_rule = PDict [(''rule'', PDict [(''family'', PStr ''inet''),
      (''table'', PStr ''services''), (''chain'', PStr ''incoming''), (''handle'', PInt 7),
      (''expr'', PList [sample_match_22, PDict [(''accept'', PNone)]])])]"

definition sample_web_rule :: py where
  "sample_web_rule = PDict [(''rule'', PDict [(''family'', PStr ''ip''),
      (''table'', PStr ''filter''), (''chain'', PStr ''input''), (''handle'', PInt 8),
      (''expr'', PList [PDict [(''match'', PDict [(''op'', PStr ''==''),
          (''left'', PDict [(''payload'', PDict [(''protocol'', PStr ''tcp''),
                                                (''field'', PStr ''dport'')])]),
          (''right'', PInt 80)])],
        PDict [(''accept'', PNone)]])])]"

definition sample_items :: "py list" where
  "sample_items = [PDict [(''metainfo'', PDict [(''version'', PStr ''1.0.2'')])],
                   sample_web_rule, sample_ssh_rule]"

section \<open>Properties\<close>

subsection \<open>Auxiliary facts\<close>

lemma bind_e_simps [simp]:
  "bind_e (Inl e) f = Inl e"
  "bind_e (Inr x) f = f x"
  by (simp_all add: bind_e_def)

lemmas str_eval = strip_def is_space_char_def is_space_def char_len_def unicode_spaces_def
  py_int_of_str_def to_ascii_def int_space_def parse_body_def max_str_digits_def digit_val_def

lemmas gen_eval = generate_nft_command_def address_command_def add_rule_prefix_def py_str_def
  lower_def lower_char_def str_eval show_int_def
  show_nat.simps digit_char_def py_iter_def

lemma parse_body_limit:
  "length (filter (\<lambda>c. c \<noteq> CHR ''_'') ds) > 4300 \<Longrightarrow> parse_body ds = None"
  by (simp add: parse_body_def max_str_digits_def split: option.split)

lemma split_on_no_sep: "c \<notin> set s \<Longrightarrow> split_on c s = [s]"
  by (induction s) auto

lemma split_on_two_has_sep: "split_on c s = [a, b] \<Longrightarrow> c \<in> set s"
  using split_on_no_sep [of c s] by auto

subsection \<open>Command generation and validation\<close>

text \<open>
  C1. The claim: for every action, the dns preset (protocol \<open>both\<close>, ports \<open>['53']\<close>)
  in full mode yields two directives, \<open>tcp dport 53\<close> then \<open>udp dport 53\<close>.
  The generator tests \<open>port == '53'\<close>, but the catalogue hands it the list \<open>['53']\<close>,
  which is never equal to a string; the loop over the ports then renders every protocol
  other than \<open>tcp\<close> as \<open>udp\<close>. For every action the dns preset yields the single
  directive for udp, and none for tcp.
\<close>

theorem dns_preset_single_directive:
  "generate_nft_command action (preset_protocol Dns) (preset_ports Dns) True ip_address =
     Inr (Some [''nft add rule ip filter input udp dport 53 '' @ action])"
  by (simp add: gen_eval)

text \<open>
  C3, as stated, at the all-addresses default: the address \<open>0.0.0.0/0\<close> is a non-empty
  string, so the directive carries the clause \<open>ip daddr 0.0.0.0/0\<close>.
\<close>

theorem adhoc_default_address_counterexample:
  "generate_nft_command ''accept'' ''tcp'' (PStr ''80'') False (Some ''0.0.0.0/0'') =
     Inr (Some [''nft add rule ip filter input ip daddr 0.0.0.0/0 tcp dport 80 accept''])"
  by (simp add: gen_eval)

text \<open>
  C3, amended. In ad-hoc synthesis of a port that is not a range, for a protocol other
  than icmp and ipv6-icmp, the result is one directive: the fixed prefix, then the clause
  \<open>ip daddr <addr>\<close> exactly when an address is supplied and is not the empty string
  (the default \<open>0.0.0.0/0\<close> is rendered like any other address), then
  \<open><protocol> dport <port>\<close> and the action. With no address, or the empty string, the
  directive has no address clause.
\<close>

theorem adhoc_address_clause:
  assumes "lower protocol \<noteq> ''icmp''" and "lower protocol \<noteq> ''ipv6-icmp''"
    and "CHR ''-'' \<notin> set (py_str port)"
  shows "generate_nft_command action protocol port False ip_address =
     Inr (Some [add_rule_prefix
                @ (case ip_address of
                     None \<Rightarrow> []
                   | Some a \<Rightarrow> if a = [] then [] else ''ip daddr '' @ a @ '' '')
                @ protocol @ '' dport '' @ py_str port @ '' '' @ action])"
  using assms by (simp add: generate_nft_command_def address_command_def split: option.split)

theorem adhoc_address_clause_witness:
  "lower ''tcp'' \<noteq> ''icmp'' \<and> lower ''tcp'' \<noteq> ''ipv6-icmp''
   \<and> CHR ''-'' \<notin> set (py_str (PStr ''22''))
   \<and> generate_nft_command ''drop'' ''tcp'' (PStr ''22'') False (Some ''192.168.1.100'') =
     Inr (Some [''nft add rule ip filter input ip daddr 192.168.1.100 tcp dport 22 drop''])
   \<and> generate_nft_command ''drop'' ''tcp'' (PStr ''22'') False None =
     Inr (Some [''nft add rule ip filter input tcp dport 22 drop''])"
  using adhoc_address_clause [of "''tcp''" "PStr ''22''" "''drop''" "Some ''192.168.1.100''"]
    adhoc_address_clause [of "''tcp''" "PStr ''22''" "''drop''" None]
  by (simp add: lower_def lower_char_def py_str_def add_rule_prefix_def)

text \<open>
  C4. The claim: for every protocol, a range is rendered \<open><protocol> dport start:end\<close>,
  for example \<open>sctp dport 8080:8090\<close>. The range branch chooses between the literals
  \<open>tcp\<close> and \<open>udp\<close> only, where the single-port branch next to it renders the protocol
  it was given: for sctp the directive says \<open>udp\<close>.
\<close>

theorem range_sctp_rendered_as_udp:
  "generate_nft_command ''accept'' ''sctp'' (PStr ''8080-8090'') False None =
     Inr (Some [''nft add rule ip filter input udp dport 8080:8090 accept''])"
  by (simp add: gen_eval)

text \<open>
  C5. The claim: the check succeeds for a protocol of the no-port family exactly when no
  port is supplied. The check rejects every protocol of that family whatever the port,
  also with no port at all, and the message it returns then says that the protocol
  needs no port argument.
\<close>

theorem validate_icmp_without_port_rejected:
  "validate_protocol_port ''icmp'' PNone = (False, msg_proto @ ''icmp'' @ msg_no_port)"
  by (simp add: validate_protocol_port_def protocols_without_port_def lower_def lower_char_def)

text \<open>The rest of C5 holds: a protocol of the no-port family with a port is rejected, and
  any other protocol passes exactly when the port is neither absent nor a list of more
  than one member (a single port and a dash range are strings).\<close>

lemma validate_no_port_family:
  "lower protocol \<in> set protocols_without_port \<Longrightarrow>
     fst (validate_protocol_port protocol port) = False"
  by (simp add: validate_protocol_port_def)

lemma validate_other_protocols:
  "lower protocol \<notin> set protocols_without_port \<Longrightarrow>
     fst (validate_protocol_port protocol port) = (port \<noteq> PNone \<and> \<not> is_multi_list port)"
  by (simp add: validate_protocol_port_def)

text \<open>For icmp and ipv6-icmp the generator returns the directive of the protocol before
  it looks at the port or the address; the paths for a range and for a single port
  come after that.\<close>

lemma icmp_ignores_port:
  "lower protocol = ''icmp'' \<or> lower protocol = ''ipv6-icmp'' \<Longrightarrow>
     generate_nft_command action protocol port False ip_address
       = Inr (Some [add_rule_prefix @ protocol @ '' '' @ action])"
  by (auto simp: generate_nft_command_def)

text \<open>
  C9. In ad-hoc synthesis on the range path (the protocol is not icmp or ipv6-icmp),
  when the port is a string of two dash-separated parts that \<open>int()\<close> reads as integers
  and the first is greater than the second, the generator returns \<open>None\<close> and no
  directive, whatever the action and the address; \<open>main\<close> handles that \<open>None\<close> by going
  back to the menu without executing anything.
\<close>

theorem descending_range_returns_none:
  assumes "lower protocol \<noteq> ''icmp''" and "lower protocol \<noteq> ''ipv6-icmp''"
    and "split_on CHR ''-'' s = [a, b]"
    and "py_int_of_str (strip a) = Inr start_port"
    and "py_int_of_str (strip b) = Inr end_port"
    and "start_port > end_port"
  shows "generate_nft_command action protocol (PStr s) False ip_address = Inr None
     \<and> map_sum id handle_generated
           (generate_nft_command action protocol (PStr s) False ip_address) = Inr BackToMenu"
  using assms split_on_two_has_sep [of "CHR ''-''" s a b]
  by (simp add: generate_nft_command_def py_str_def handle_generated_def)

theorem descending_range_returns_none_witness:
  "lower ''tcp'' \<noteq> ''icmp'' \<and> lower ''tcp'' \<noteq> ''ipv6-icmp''
   \<and> split_on CHR ''-'' ''8090-8080'' = [''8090'', ''8080'']
   \<and> py_int_of_str (strip ''8090'') = Inr 8090
   \<and> py_int_of_str (strip ''8080'') = Inr 8080
   \<and> (8090 :: int) > 8080
   \<and> generate_nft_command ''accept'' ''tcp'' (PStr ''8090-8080'') False (Some ''10.0.0.1'')
       = Inr None
   \<and> map_sum id handle_generated
         (generate_nft_command ''accept'' ''tcp'' (PStr ''8090-8080'') False (Some ''10.0.0.1''))
       = Inr BackToMenu"
proof -
  have 1: "lower ''tcp'' \<noteq> ''icmp''" "lower ''tcp'' \<noteq> ''ipv6-icmp''"
    by (simp_all add: lower_def lower_char_def)
  have 2: "split_on CHR ''-'' ''8090-8080'' = [''8090'', ''8080'']" by simp
  have 3: "py_int_of_str (strip ''8090'') = Inr 8090" "py_int_of_str (strip ''8080'') = Inr 8080"
    by (simp_all add: str_eval)
  have 4: "(8090 :: int) > 8080" by simp
  from descending_range_returns_none [OF 1 2 3 4] 1 2 3 4 show ?thesis by blast
qed

subsection \<open>The formatter\<close>

lemma bind_e_Inr_iff: "(bind_e m f = Inr y) = (\<exists>x. m = Inr x \<and> f x = Inr y)"
  by (cases m) simp_all

lemma port_label_nonempty: "neg @ port_label @ rest \<noteq> []"
  by (simp add: port_label_def)

lemma format_match_keeps:
  "format_match expr st = Inr st' \<Longrightarrow> py_get expr ''match'' (PDict []) = Inr v \<Longrightarrow>
   read_operands v (PStr []) = Inr od \<Longrightarrow> \<not> is_port_field (od_field od) \<Longrightarrow>
   fs_port_info st' = fs_port_info st"
  by (auto simp: format_match_def add_part_def split: if_splits)

lemma format_match_sets:
  "format_match expr st = Inr st' \<Longrightarrow> py_get expr ''match'' (PDict []) = Inr v \<Longrightarrow>
   read_operands v (PStr []) = Inr od \<Longrightarrow> is_port_field (od_field od) \<Longrightarrow>
   fs_port_info st' \<noteq> [] \<and> (\<forall>s. format_match expr s = Inr (s\<lparr>fs_port_info := fs_port_info st'\<rparr>))"
  by (auto simp: format_match_def port_label_nonempty)

lemma format_relational_keeps:
  "format_relational expr st = Inr st' \<Longrightarrow> py_get expr ''relational'' (PDict []) = Inr v \<Longrightarrow>
   read_operands v (PStr []) = Inr od \<Longrightarrow> \<not> is_port_field (od_field od) \<Longrightarrow>
   fs_port_info st' = fs_port_info st"
  by (auto simp: format_relational_def bind_e_Inr_iff add_part_def split: if_splits)

lemma format_relational_sets:
  "format_relational expr st = Inr st' \<Longrightarrow> py_get expr ''relational'' (PDict []) = Inr v \<Longrightarrow>
   read_operands v (PStr []) = Inr od \<Longrightarrow> is_port_field (od_field od) \<Longrightarrow>
   fs_port_info st' \<noteq> [] \<and> (\<forall>s. format_relational expr s = Inr (s\<lparr>fs_port_info := fs_port_info st'\<rparr>))"
  by (auto simp: format_relational_def bind_e_Inr_iff port_label_nonempty)

lemma format_cmp_keeps:
  "format_cmp expr st = Inr st' \<Longrightarrow> py_get expr ''cmp'' (PDict []) = Inr v \<Longrightarrow>
   read_operands v (PDict []) = Inr od \<Longrightarrow> \<not> is_port_field (od_field od) \<Longrightarrow>
   fs_port_info st' = fs_port_info st"
  by (auto simp: format_cmp_def bind_e_Inr_iff add_part_def split: if_splits)

lemma format_cmp_sets:
  "format_cmp expr st = Inr st' \<Longrightarrow> py_get expr ''cmp'' (PDict []) = Inr v \<Longrightarrow>
   read_operands v (PDict []) = Inr od \<Longrightarrow> is_port_field (od_field od) \<Longrightarrow>
   fs_port_info st' \<noteq> [] \<and> (\<forall>s. format_cmp expr s = Inr (s\<lparr>fs_port_info := fs_port_info st'\<rparr>))"
  by (auto simp: format_cmp_def bind_e_Inr_iff port_label_nonempty)

lemma format_payload_keeps:
  "format_payload expr st = Inr st' \<Longrightarrow> py_get expr ''payload'' (PDict []) = Inr v \<Longrightarrow>
   py_get v ''field'' (PStr []) = Inr field \<Longrightarrow> \<not> is_port_field field \<Longrightarrow>
   fs_port_info st' = fs_port_info st"
  by (auto simp: format_payload_def bind_e_Inr_iff add_part_def split: if_splits)

lemma format_payload_sets:
  "format_payload expr st = Inr st' \<Longrightarrow> py_get expr ''payload'' (PDict []) = Inr v \<Longrightarrow>
   py_get v ''field'' (PStr []) = Inr field \<Longrightarrow> is_port_field field \<Longrightarrow>
   fs_port_info st' \<noteq> [] \<and> (\<forall>s. format_payload expr s = Inr (s\<lparr>fs_port_info := fs_port_info st'\<rparr>))"
  by (auto simp: format_payload_def bind_e_Inr_iff port_label_def)

lemma format_match_reads:
  "format_match expr st = Inr st' \<Longrightarrow>
     \<exists>v od. py_get expr ''match'' (PDict []) = Inr v \<and> read_operands v (PStr []) = Inr od"
  by (auto simp: format_match_def bind_e_Inr_iff)

lemma format_relational_reads:
  "format_relational expr st = Inr st' \<Longrightarrow>
     \<exists>v od. py_get expr ''relational'' (PDict []) = Inr v \<and> read_operands v (PStr []) = Inr od"
  by (auto simp: format_relational_def bind_e_Inr_iff)

lemma format_cmp_reads:
  "format_cmp expr st = Inr st' \<Longrightarrow>
     \<exists>v od. py_get expr ''cmp'' (PDict []) = Inr v \<and> read_operands v (PDict []) = Inr od"
  by (auto simp: format_cmp_def bind_e_Inr_iff)

lemma format_payload_reads:
  "format_payload expr st = Inr st' \<Longrightarrow>
     \<exists>v field. py_get expr ''payload'' (PDict []) = Inr v \<and> py_get v ''field'' (PStr []) = Inr field"
  by (auto simp: format_payload_def bind_e_Inr_iff)

lemma format_meta_keeps: "format_meta expr st = Inr st' \<Longrightarrow> fs_port_info st' = fs_port_info st"
  by (auto simp: format_meta_def bind_e_Inr_iff)

lemma format_ct_keeps: "format_ct expr st = Inr st' \<Longrightarrow> fs_port_info st' = fs_port_info st"
  by (auto simp: format_ct_def bind_e_Inr_iff add_part_def split: if_splits)

lemma format_counter_keeps: "format_counter expr st = Inr st' \<Longrightarrow> fs_port_info st' = fs_port_info st"
  by (auto simp: format_counter_def bind_e_Inr_iff add_part_def split: if_splits)

lemma format_jump_keeps: "format_jump expr st = Inr st' \<Longrightarrow> fs_port_info st' = fs_port_info st"
  by (auto simp: format_jump_def bind_e_Inr_iff add_part_def split: if_splits)

lemma format_xt_keeps: "format_xt expr st = Inr st' \<Longrightarrow> fs_port_info st' = fs_port_info st"
  by (auto simp: format_xt_def bind_e_Inr_iff add_part_def split: if_splits)

lemma py_get_first: "py_get (PDict ((k, v) # rest)) k d = Inr v"
  by (simp add: py_get_def)


lemma nonport_keeps:
  assumes "\<not> is_port_node expr" and "format_node expr st = Inr st'"
  shows "fs_port_info st' = fs_port_info st"
proof (cases "truthy expr")
  case False
  with assms show ?thesis by (simp add: format_node_def)
next
  case True
  with assms(2) obtain k v rest where e: "expr = PDict ((k, v) # rest)"
    by (auto simp: format_node_def split: py.splits list.splits)
  note g = py_get_first [of k v rest]
  consider "k = ''match''" | "k = ''relational''" | "k = ''cmp''" | "k = ''payload''"
    | "k \<notin> {''match'', ''relational'', ''cmp'', ''payload''}" by auto
  then show ?thesis
  proof cases
    case 1
    with assms e have f: "format_match expr st = Inr st'" by (simp add: format_node_def)
    from format_match_reads [OF f] g 1 e obtain od where r: "read_operands v (PStr []) = Inr od"
      by auto
    with assms(1) e 1 have "\<not> is_port_field (od_field od)"
      by (simp add: is_port_node_def node_field_def)
    with format_match_keeps [OF f _ r] g e 1 show ?thesis by simp
  next
    case 2
    with assms e have f: "format_relational expr st = Inr st'" by (simp add: format_node_def)
    from format_relational_reads [OF f] g 2 e obtain od where r: "read_operands v (PStr []) = Inr od"
      by auto
    with assms(1) e 2 have "\<not> is_port_field (od_field od)"
      by (simp add: is_port_node_def node_field_def)
    with format_relational_keeps [OF f _ r] g e 2 show ?thesis by simp
  next
    case 3
    with assms e have f: "format_cmp expr st = Inr st'" by (simp add: format_node_def)
    from format_cmp_reads [OF f] g 3 e obtain od where r: "read_operands v (PDict []) = Inr od"
      by auto
    with assms(1) e 3 have "\<not> is_port_field (od_field od)"
      by (simp add: is_port_node_def node_field_def)
    with format_cmp_keeps [OF f _ r] g e 3 show ?thesis by simp
  next
    case 4
    with assms e have f: "format_payload expr st = Inr st'" by (simp add: format_node_def)
    from format_payload_reads [OF f] g 4 e obtain field where r: "py_get v ''field'' (PStr []) = Inr field"
      by auto
    with assms(1) e 4 have "\<not> is_port_field field"
      by (simp add: is_port_node_def node_field_def)
    with format_payload_keeps [OF f _ r] g e 4 show ?thesis by simp
  next
    case 5
    with assms(2) e show ?thesis
      by (auto simp: format_node_def add_part_def split: if_splits
          dest: format_meta_keeps format_ct_keeps format_counter_keeps format_jump_keeps format_xt_keeps)
  qed
qed

lemma port_sets:
  assumes "is_port_node expr" and "format_node expr st = Inr st'"
  shows "fs_port_info st' \<noteq> [] \<and> (\<forall>s. format_node expr s = Inr (s\<lparr>fs_port_info := fs_port_info st'\<rparr>))"
proof -
  from assms(1) obtain k v rest where e: "expr = PDict ((k, v) # rest)"
    by (auto simp: is_port_node_def node_field_def split: py.splits list.splits)
  note g = py_get_first [of k v rest]
  have t: "truthy expr" using e by simp
  from assms(1) e consider "k = ''match''" | "k = ''relational''" | "k = ''cmp''" | "k = ''payload''"
    by (auto simp: is_port_node_def node_field_def split: if_splits)
  then show ?thesis
  proof cases
    case 1
    with assms e have f: "format_match expr st = Inr st'" by (simp add: format_node_def)
    from format_match_reads [OF f] g 1 e obtain od where r: "read_operands v (PStr []) = Inr od"
      by auto
    with assms(1) e 1 have "is_port_field (od_field od)"
      by (simp add: is_port_node_def node_field_def)
    with format_match_sets [OF f _ r] g e 1 show ?thesis by (simp add: format_node_def)
  next
    case 2
    with assms e have f: "format_relational expr st = Inr st'" by (simp add: format_node_def)
    from format_relational_reads [OF f] g 2 e obtain od where r: "read_operands v (PStr []) = Inr od"
      by auto
    with assms(1) e 2 have "is_port_field (od_field od)"
      by (simp add: is_port_node_def node_field_def)
    with format_relational_sets [OF f _ r] g e 2 show ?thesis by (simp add: format_node_def)
  next
    case 3
    with assms e have f: "format_cmp expr st = Inr st'" by (simp add: format_node_def)
    from format_cmp_reads [OF f] g 3 e obtain od where r: "read_operands v (PDict []) = Inr od"
      by auto
    with assms(1) e 3 have "is_port_field (od_field od)"
      by (simp add: is_port_node_def node_field_def)
    with format_cmp_sets [OF f _ r] g e 3 show ?thesis by (simp add: format_node_def)
  next
    case 4
    with assms e have f: "format_payload expr st = Inr st'" by (simp add: format_node_def)
    from format_payload_reads [OF f] g 4 e obtain field where r: "py_get v ''field'' (PStr []) = Inr field"
      by auto
    with assms(1) e 4 have "is_port_field field"
      by (simp add: is_port_node_def node_field_def)
    with format_payload_sets [OF f _ r] g e 4 show ?thesis by (simp add: format_node_def)
  qed
qed


lemma format_loop_append:
  "format_loop (xs @ ys) st = (case format_loop xs st of Inl e \<Rightarrow> Inl e | Inr s \<Rightarrow> format_loop ys s)"
  by (induction xs arbitrary: st) (auto split: sum.splits)

lemma format_loop_keeps:
  "list_all (\<lambda>m. \<not> is_port_node m) ys \<Longrightarrow> format_loop ys st = Inr st' \<Longrightarrow>
     fs_port_info st' = fs_port_info st"
proof (induction ys arbitrary: st)
  case Nil
  then show ?case by simp
next
  case (Cons y ys)
  from Cons.prems(2) obtain s where s: "format_node y st = Inr s" and r: "format_loop ys s = Inr st'"
    by (auto split: sum.splits)
  from Cons.prems(1) have "\<not> is_port_node y" and "list_all (\<lambda>m. \<not> is_port_node m) ys" by simp_all
  with Cons.IH [OF _ r] nonport_keeps [OF _ s] show ?case by simp
qed

lemma join_Cons: "join sep (x # ys) = x @ (if ys = [] then [] else sep @ join sep ys)"
  by (cases ys) simp_all

lemma starts_with_append: "starts_with p (p @ r)"
  by (induction p) simp_all

lemma assemble_starts_with_port:
  "fs_port_info st \<noteq> [] \<Longrightarrow> starts_with (fs_port_info st) (assemble st)"
  by (simp add: assemble_def result_parts_def join_Cons starts_with_append)

lemma format_loop_last_port:
  assumes "format_loop (xs @ n # ys) init_state = Inr st"
    and "is_port_node n"
    and "list_all (\<lambda>m. \<not> is_port_node m) ys"
  shows "fs_port_info st = node_port_info n \<and> node_port_info n \<noteq> []
         \<and> starts_with (node_port_info n) (assemble st)"
proof -
  from assms(1) obtain s1 s2 where s1: "format_loop xs init_state = Inr s1"
    and s2: "format_node n s1 = Inr s2" and s3: "format_loop ys s2 = Inr st"
    by (auto simp: format_loop_append split: sum.splits)
  from port_sets [OF assms(2) s2] have ne: "fs_port_info s2 \<noteq> []"
    and al: "format_node n init_state = Inr (init_state\<lparr>fs_port_info := fs_port_info s2\<rparr>)"
    by simp_all
  from al have np: "node_port_info n = fs_port_info s2" by (simp add: node_port_info_def)
  from format_loop_keeps [OF assms(3) s3] have k: "fs_port_info st = fs_port_info s2" .
  from k ne assemble_starts_with_port [of st] have "starts_with (fs_port_info s2) (assemble st)"
    by simp
  with np k ne show ?thesis by simp
qed

lemmas fmt_eval = format_rule_expression_def py_iter_def format_node_def format_match_def
  read_operands_def py_get_def is_port_field_def neg_str_of_def py_str_def show_int_def
  show_nat.simps digit_char_def init_state_def assemble_def result_parts_def add_part_def

text \<open>
  C2, as stated, on two port-matching nodes: the first node alone gives the descriptor
  for port 22, and the rule formats to the descriptor of the second node, port 80.
  Every port-matching node assigns \<open>port_info\<close>, so a later one overwrites an earlier one.
\<close>

theorem first_port_node_counterexample:
  "is_port_node (PDict [(''match'', PDict [(''op'', PStr ''==''),
      (''left'', PDict [(''payload'', PDict [(''protocol'', PStr ''tcp''), (''field'', PStr ''dport'')])]),
      (''right'', PInt 22)])])
   \<and> node_port_info (PDict [(''match'', PDict [(''op'', PStr ''==''),
      (''left'', PDict [(''payload'', PDict [(''protocol'', PStr ''tcp''), (''field'', PStr ''dport'')])]),
      (''right'', PInt 22)])]) = port_label @ '' 22''
   \<and> format_rule_expression (PList
       [PDict [(''match'', PDict [(''op'', PStr ''==''),
          (''left'', PDict [(''payload'', PDict [(''protocol'', PStr ''tcp''), (''field'', PStr ''dport'')])]),
          (''right'', PInt 22)])],
        PDict [(''match'', PDict [(''op'', PStr ''==''),
          (''left'', PDict [(''payload'', PDict [(''protocol'', PStr ''tcp''), (''field'', PStr ''sport'')])]),
          (''right'', PInt 80)])]]) = Inr (port_label @ '' 80'')"
  by (simp add: fmt_eval is_port_node_def node_field_def node_port_info_def)

text \<open>
  C2, amended. For every node list that formats without an error, the last node (in list
  order) whose payload field is \<open>dport\<close> or \<open>sport\<close>, under any of the kinds match,
  relational, cmp and payload, determines the port descriptor of the formatted rule:
  the descriptor is the one that node produces alone, it is not empty, and the formatted
  rule starts with it. Port-matching nodes before it do not change it.
\<close>

theorem last_port_node_wins:
  assumes "format_rule_expression (PList (xs @ n # ys)) = Inr out"
    and "is_port_node n"
    and "list_all (\<lambda>m. \<not> is_port_node m) ys"
  shows "\<exists>st. format_loop (xs @ n # ys) init_state = Inr st \<and> out = assemble st
              \<and> fs_port_info st = node_port_info n \<and> node_port_info n \<noteq> []
              \<and> starts_with (node_port_info n) out"
proof -
  from assms(1) obtain st where st: "format_loop (xs @ n # ys) init_state = Inr st"
    and out: "out = assemble st"
    by (auto simp: format_rule_expression_def py_iter_def bind_e_Inr_iff)
  from st obtain s1 s2 where s1: "format_loop xs init_state = Inr s1"
    and s2: "format_node n s1 = Inr s2" and s3: "format_loop ys s2 = Inr st"
    by (auto simp: format_loop_append split: sum.splits)
  from port_sets [OF assms(2) s2] have ne: "fs_port_info s2 \<noteq> []"
    and al: "format_node n init_state = Inr (init_state\<lparr>fs_port_info := fs_port_info s2\<rparr>)"
    by simp_all
  from al have np: "node_port_info n = fs_port_info s2" by (simp add: node_port_info_def)
  from format_loop_keeps [OF assms(3) s3] have k: "fs_port_info st = fs_port_info s2" .
  from k ne assemble_starts_with_port [of st] have "starts_with (fs_port_info s2) (assemble st)"
    by simp
  with st out np k ne show ?thesis by simp
qed

theorem last_port_node_wins_witness:
  "format_rule_expression (PList ([PDict [(''match'', PDict [
        (''left'', PDict [(''payload'', PDict [(''protocol'', PStr ''tcp''), (''field'', PStr ''dport'')])]),
        (''right'', PInt 22)])]]
      @ PDict [(''payload'', PDict [(''protocol'', PStr ''tcp''), (''field'', PStr ''sport''),
                                   (''value'', PInt 80)])]
      # [PDict [(''accept'', PNone)]])) = Inr (port_label @ '' 80 '' @ lbl_accept)
   \<and> is_port_node (PDict [(''payload'', PDict [(''protocol'', PStr ''tcp''),
                       (''field'', PStr ''sport''), (''value'', PInt 80)])])
   \<and> list_all (\<lambda>m. \<not> is_port_node m) [PDict [(''accept'', PNone)]]
   \<and> node_port_info (PDict [(''payload'', PDict [(''protocol'', PStr ''tcp''),
                       (''field'', PStr ''sport''), (''value'', PInt 80)])]) = port_label @ '' 80''
   \<and> starts_with (port_label @ '' 80'') (port_label @ '' 80 '' @ lbl_accept)"
proof -
  have 1: "format_rule_expression (PList ([PDict [(''match'', PDict [
        (''left'', PDict [(''payload'', PDict [(''protocol'', PStr ''tcp''), (''field'', PStr ''dport'')])]),
        (''right'', PInt 22)])]]
      @ PDict [(''payload'', PDict [(''protocol'', PStr ''tcp''), (''field'', PStr ''sport''),
                                   (''value'', PInt 80)])]
      # [PDict [(''accept'', PNone)]])) = Inr (port_label @ '' 80 '' @ lbl_accept)"
    by (simp add: fmt_eval format_payload_def port_label_def lbl_accept_def)
  have 2: "is_port_node (PDict [(''payload'', PDict [(''protocol'', PStr ''tcp''),
                       (''field'', PStr ''sport''), (''value'', PInt 80)])])"
    by (simp add: is_port_node_def node_field_def py_get_def is_port_field_def)
  have 3: "list_all (\<lambda>m. \<not> is_port_node m) [PDict [(''accept'', PNone)]]"
    by (simp add: is_port_node_def node_field_def)
  have 4: "node_port_info (PDict [(''payload'', PDict [(''protocol'', PStr ''tcp''),
                       (''field'', PStr ''sport''), (''value'', PInt 80)])]) = port_label @ '' 80''"
    by (simp add: node_port_info_def fmt_eval format_payload_def)
  from last_port_node_wins [OF 1 2 3] 1 2 3 4 show ?thesis by auto
qed

text \<open>
  C7. Formatting the empty expression list yields the empty-rule sentinel, and
  formatting a non-empty list in which every node leaves the port descriptor, the
  qualifier fragments and the action label as they were at the start (all empty)
  yields the complex-rule sentinel.
\<close>

theorem empty_and_complex_sentinels:
  "format_rule_expression (PList []) = Inr empty_rule
   \<and> (xs \<noteq> [] \<and> list_all (\<lambda>x. format_node x init_state = Inr init_state) xs
        \<longrightarrow> format_rule_expression (PList xs) = Inr complex_rule)"
proof -
  have loop: "list_all (\<lambda>x. format_node x init_state = Inr init_state) ys
                \<Longrightarrow> format_loop ys init_state = Inr init_state" for ys
    by (induction ys) simp_all
  have "assemble init_state = complex_rule"
    by (simp add: assemble_def result_parts_def init_state_def)
  with loop [of xs] show ?thesis
    by (auto simp: format_rule_expression_def py_iter_def)
qed

theorem empty_and_complex_sentinels_witness:
  "[PDict [(''frobnicate'', PNone)], PDict [], PDict [(''jump'', PDict [])]] \<noteq> []
   \<and> list_all (\<lambda>x. format_node x init_state = Inr init_state)
        [PDict [(''frobnicate'', PNone)], PDict [], PDict [(''jump'', PDict [])]]
   \<and> format_rule_expression
        (PList [PDict [(''frobnicate'', PNone)], PDict [], PDict [(''jump'', PDict [])]])
      = Inr complex_rule"
proof -
  have h: "list_all (\<lambda>x. format_node x init_state = Inr init_state)
        [PDict [(''frobnicate'', PNone)], PDict [], PDict [(''jump'', PDict [])]]"
    by (simp add: format_node_def format_jump_def py_get_def)
  with empty_and_complex_sentinels
         [of "[PDict [(''frobnicate'', PNone)], PDict [], PDict [(''jump'', PDict [])]]"]
  show ?thesis by simp
qed

subsection \<open>The summary\<close>

lemma summary_loop_counts:
  "summary_loop items sm = Inr sm' \<Longrightarrow>
     input_rules sm' = input_rules sm + length (filter is_managed_rule items)
     \<and> input_port_rules sm' = input_port_rules sm
          + length (filter (\<lambda>i. is_managed_rule i \<and> has_port_description i) items)"
proof (induction items arbitrary: sm)
  case Nil
  then show ?case by simp
next
  case (Cons item items)
  from Cons.prems obtain is_rule where c: "py_contains ''rule'' item = Inr is_rule"
    by (auto simp: bind_e_Inr_iff)
  show ?case
  proof (cases is_rule)
    case False
    with Cons.prems c have "summary_loop items sm = Inr sm'" by simp
    moreover from False c have "\<not> is_managed_rule item" by (simp add: is_managed_rule_def)
    ultimately show ?thesis using Cons.IH by simp
  next
    case True
    with Cons.prems c obtain rule chain family tbl where
      r: "py_getitem item ''rule'' = Inr rule" and
      g: "py_get rule ''chain'' PNone = Inr chain" "py_get rule ''family'' PNone = Inr family"
         "py_get rule ''table'' PNone = Inr tbl"
      by (auto simp: bind_e_Inr_iff)
    show ?thesis
    proof (cases "chain = PStr ''input'' \<and> family = PStr ''ip'' \<and> tbl = PStr ''filter''")
      case False
      with Cons.prems c True r g have "summary_loop items sm = Inr sm'" by auto
      moreover from False c True r g have "\<not> is_managed_rule item"
        by (auto simp: is_managed_rule_def)
      ultimately show ?thesis using Cons.IH by simp
    next
      case m: True
      with Cons.prems c True r g obtain expr rule_desc where
        e: "py_get rule ''expr'' (PList []) = Inr expr" and
        d: "format_rule_expression expr = Inr rule_desc" and
        l: "summary_loop items
              (if contains_str port_label rule_desc
               then sm\<lparr>input_rules := input_rules sm + 1, input_port_rules := input_port_rules sm + 1\<rparr>
               else sm\<lparr>input_rules := input_rules sm + 1\<rparr>) = Inr sm'"
        by (auto simp: bind_e_Inr_iff)
      from m c True r g have mg: "is_managed_rule item" by (simp add: is_managed_rule_def)
      from r e d have hp: "has_port_description item = contains_str port_label rule_desc"
        by (simp add: has_port_description_def)
      from Cons.IH [OF l] mg hp show ?thesis by (simp split: if_splits)
    qed
  qed
qed


text \<open>
  C10. Whenever \<open>get_rule_summary\<close> returns a summary, its count of port rules is at most
  its count of rules; and for a dump whose \<open>nftables\<close> entry is a list, the first count
  is the number of entries that are rules with chain \<open>input\<close>, family \<open>ip\<close> and table
  \<open>filter\<close>, and the second the number of those whose description contains the port
  label. (When an entry makes the function raise, it returns \<open>None\<close> and there is no
  summary.)
\<close>

theorem summary_counts:
  assumes "get_rule_summary loads dump ruleset_data = Some sm"
  shows "input_port_rules sm \<le> input_rules sm
     \<and> (\<forall>kvs items.
          ruleset_source loads dump ruleset_data = Some (PDict kvs)
          \<and> map_of kvs ''nftables'' = Some (PList items)
          \<longrightarrow> input_rules sm = length (filter is_managed_rule items)
              \<and> input_port_rules sm
                  = length (filter (\<lambda>i. is_managed_rule i \<and> has_port_description i) items))"
proof -
  from assms obtain data where src: "ruleset_source loads dump ruleset_data = Some data"
    by (auto simp: get_rule_summary_def split: option.splits)
  with assms obtain forest where f: "py_get data ''nftables'' PNone = Inr forest"
    by (auto simp: get_rule_summary_def bind_e_Inr_iff split: sum.splits)
  from f obtain dkvs where data: "data = PDict dkvs" by (auto simp: py_get_def split: py.splits)
  show ?thesis
  proof (cases "truthy forest")
    case False
    with assms src f have z: "sm = \<lparr>input_rules = 0, input_port_rules = 0\<rparr>"
      by (simp add: get_rule_summary_def)
    from False f data src have "\<And>items. map_of dkvs ''nftables'' = Some (PList items) \<Longrightarrow> items = []"
      by (auto simp: py_get_def split: option.splits)
    with z src data show ?thesis by auto
  next
    case True
    with assms src f obtain forest' its where
      g: "py_getitem data ''nftables'' = Inr forest'" and i: "py_iter forest' = Inr its"
      and l: "summary_loop its \<lparr>input_rules = 0, input_port_rules = 0\<rparr> = Inr sm"
      by (auto simp: get_rule_summary_def bind_e_Inr_iff split: sum.splits)
    from summary_loop_counts [OF l]
    have c: "input_rules sm = length (filter is_managed_rule its)"
      "input_port_rules sm = length (filter (\<lambda>i. is_managed_rule i \<and> has_port_description i) its)"
      by simp_all
    have "length (filter (\<lambda>i. is_managed_rule i \<and> has_port_description i) its)
            \<le> length (filter is_managed_rule its)"
      by (induction its) auto
    with c have le: "input_port_rules sm \<le> input_rules sm" by simp
    from g i data have "\<And>items. map_of dkvs ''nftables'' = Some (PList items) \<Longrightarrow> its = items"
      by (auto simp: py_getitem_def py_iter_def)
    with le c src data show ?thesis by auto
  qed
qed

theorem summary_counts_witness:
  "get_rule_summary (\<lambda>s. Inl ValueError) RunRaised
     (PDict [(''nftables'', PList
        [PDict [(''metainfo'', PDict [(''version'', PStr ''1.0.2'')])],
         PDict [(''rule'', PDict [(''family'', PStr ''ip''), (''table'', PStr ''filter''),
            (''chain'', PStr ''input''), (''handle'', PInt 4),
            (''expr'', PList [PDict [(''match'', PDict [(''op'', PStr ''==''),
                (''left'', PDict [(''payload'', PDict [(''protocol'', PStr ''tcp''),
                                                      (''field'', PStr ''dport'')])]),
                (''right'', PInt 22)])],
              PDict [(''accept'', PNone)]])])],
         PDict [(''rule'', PDict [(''family'', PStr ''ip''), (''table'', PStr ''filter''),
            (''chain'', PStr ''input''), (''handle'', PInt 5),
            (''expr'', PList [PDict [(''drop'', PNone)]])])],
         PDict [(''rule'', PDict [(''family'', PStr ''inet''), (''table'', PStr ''filter''),
            (''chain'', PStr ''input''), (''handle'', PInt 6),
            (''expr'', PList [PDict [(''payload'', PDict [(''protocol'', PStr ''udp''),
                (''field'', PStr ''dport''), (''value'', PInt 53)])]])])]])])
   = Some \<lparr>input_rules = 2, input_port_rules = 1\<rparr>
   \<and> input_port_rules \<lparr>input_rules = 2, input_port_rules = 1\<rparr>
       \<le> input_rules \<lparr>input_rules = 2, input_port_rules = 1\<rparr>"
proof -
  have h: "get_rule_summary (\<lambda>s. Inl ValueError) RunRaised
     (PDict [(''nftables'', PList
        [PDict [(''metainfo'', PDict [(''version'', PStr ''1.0.2'')])],
         PDict [(''rule'', PDict [(''family'', PStr ''ip''), (''table'', PStr ''filter''),
            (''chain'', PStr ''input''), (''handle'', PInt 4),
            (''expr'', PList [PDict [(''match'', PDict [(''op'', PStr ''==''),
                (''left'', PDict [(''payload'', PDict [(''protocol'', PStr ''tcp''),
                                                      (''field'', PStr ''dport'')])]),
                (''right'', PInt 22)])],
              PDict [(''accept'', PNone)]])])],
         PDict [(''rule'', PDict [(''family'', PStr ''ip''), (''table'', PStr ''filter''),
            (''chain'', PStr ''input''), (''handle'', PInt 5),
            (''expr'', PList [PDict [(''drop'', PNone)]])])],
         PDict [(''rule'', PDict [(''family'', PStr ''inet''), (''table'', PStr ''filter''),
            (''chain'', PStr ''input''), (''handle'', PInt 6),
            (''expr'', PList [PDict [(''payload'', PDict [(''protocol'', PStr ''udp''),
                (''field'', PStr ''dport''), (''value'', PInt 53)])]])])]])])
   = Some \<lparr>input_rules = 2, input_port_rules = 1\<rparr>"
    by (simp add: get_rule_summary_def ruleset_source_def py_contains_def py_getitem_def
        fmt_eval port_label_def lbl_accept_def lbl_deny_def)
  from summary_counts [OF h] h show ?thesis by simp
qed

subsection \<open>Searching by port\<close>

lemma contains_False_getitem:
  assumes "py_contains k e = Inr False" and "py_getitem e k = Inr m"
  shows False
proof (cases e)
  case (PDict kvs)
  with assms have n: "k \<notin> fst ` set kvs" and s: "map_of kvs k = Some m"
    by (auto simp: py_contains_def py_getitem_def split: option.splits)
  from map_of_SomeD [OF s] have "k \<in> fst ` set kvs" by force
  with n show False by simp
qed (use assms in \<open>auto simp: py_getitem_def\<close>)

lemma py_str_PStr: "py_str (PStr s) = s"
  by (simp add: py_str_def)

lemma show_int_of_int_operand:
  "py_int right = Inr n \<Longrightarrow> n \<noteq> 0 \<Longrightarrow> n \<noteq> 1 \<Longrightarrow>
     py_str (if is_int right then right else PInt n) = show_int n"
  by (cases right) (auto simp: py_int_def is_int_def py_str_def split: if_splits)


lemma find_step:
  assumes "find_port_match p n (e # es) = Inr r"
  shows "(node_matches p n e \<and> (\<exists>right. py_int right = Inr n
            \<and> r = Some (p @ '' dport '' @ py_str (if is_int right then right else PInt n))))
         \<or> (\<not> node_matches p n e \<and> find_port_match p n es = Inr r)"
proof -
  from assms obtain is_match where c: "py_contains ''match'' e = Inr is_match"
    by (auto simp: bind_e_Inr_iff)
  show ?thesis
  proof (cases is_match)
    case False
    with assms c have f: "find_port_match p n es = Inr r" by simp
    have "\<not> node_matches p n e"
    proof (cases "py_getitem e ''match''")
      case (Inl err)
      then show ?thesis by (simp add: node_matches_def)
    next
      case (Inr m)
      with contains_False_getitem [of "''match''" e m] c False show ?thesis by simp
    qed
    with f show ?thesis by simp
  next
    case True
    with assms c obtain m where m: "py_getitem e ''match'' = Inr m"
      by (auto simp: bind_e_Inr_iff)
    with assms c True obtain left where l: "py_get m ''left'' (PDict []) = Inr left"
      by (auto simp: bind_e_Inr_iff)
    with assms c True m obtain right where ri: "py_get m ''right'' (PStr []) = Inr right"
      by (auto simp: bind_e_Inr_iff)
    with assms c True m l obtain payload where pl: "py_get left ''payload'' (PDict []) = Inr payload"
      by (auto simp: bind_e_Inr_iff)
    with assms c True m l ri obtain proto where pr: "py_get payload ''protocol'' (PStr []) = Inr proto"
      by (auto simp: bind_e_Inr_iff)
    with assms c True m l ri pl obtain field where fi: "py_get payload ''field'' (PStr []) = Inr field"
      by (auto simp: bind_e_Inr_iff)
    from assms c True m l ri pl pr fi have k:
      "(if proto = PStr p \<and> field = PStr ''dport'' then
          bind_e (py_int right) (\<lambda>right_int.
            if right_int = n then
              Inr (Some (py_str proto @ '' dport ''
                         @ py_str (if is_int right then right else PInt right_int)))
            else find_port_match p n es)
        else find_port_match p n es) = Inr r"
      by simp
    from m l ri pl pr fi have nm: "node_matches p n e =
        (case bind_e (py_int right) (\<lambda>right_int.
                Inr (proto = PStr p \<and> field = PStr ''dport'' \<and> right_int = n)) of
           Inr b \<Rightarrow> b | Inl err \<Rightarrow> False)"
      by (simp add: node_matches_def)
    show ?thesis
    proof (cases "proto = PStr p \<and> field = PStr ''dport''")
      case False
      with k have "find_port_match p n es = Inr r" by (simp split: if_splits)
      moreover from False nm have "\<not> node_matches p n e"
        by (cases "py_int right") auto
      ultimately show ?thesis by simp
    next
      case pf: True
      with k obtain right_int where pi: "py_int right = Inr right_int"
        and k2: "(if right_int = n then
              Inr (Some (py_str proto @ '' dport ''
                         @ py_str (if is_int right then right else PInt right_int)))
            else find_port_match p n es) = Inr r"
        by (auto simp: bind_e_Inr_iff)
      from pf pi nm have nm2: "node_matches p n e = (right_int = n)" by simp
      show ?thesis
      proof (cases "right_int = n")
        case True
        with k2 pf pi nm2 show ?thesis by (auto simp: py_str_PStr)
      next
        case False
        with k2 nm2 show ?thesis by simp
      qed
    qed
  qed
qed

lemma find_port_match_iff:
  "find_port_match p n es = Inr r \<Longrightarrow> (r \<noteq> None) = list_ex (node_matches p n) es"
proof (induction es)
  case Nil
  then show ?case by simp
next
  case (Cons e es)
  from find_step [OF Cons.prems] Cons.IH show ?case by auto
qed

lemma find_port_info:
  "find_port_match p n es = Inr (Some pinfo) \<Longrightarrow> n \<noteq> 0 \<Longrightarrow> n \<noteq> 1 \<Longrightarrow>
     pinfo = p @ '' dport '' @ show_int n"
proof (induction es)
  case Nil
  then show ?case by simp
next
  case (Cons e es)
  from find_step [OF Cons.prems(1)] consider
    (here) right where "py_int right = Inr n"
      "pinfo = p @ '' dport '' @ py_str (if is_int right then right else PInt n)"
    | (later) "find_port_match p n es = Inr (Some pinfo)"
    by auto
  then show ?case
  proof cases
    case here
    with show_int_of_int_operand [OF here(1) Cons.prems(2,3)] show ?thesis by simp
  next
    case later
    with Cons.IH Cons.prems(2,3) show ?thesis by simp
  qed
qed

lemma bind_e_assoc: "bind_e (bind_e m f) g = bind_e m (\<lambda>x. bind_e (f x) g)"
  by (cases m) simp_all

lemma bind_e_if: "bind_e (if c then a else b) g = (if c then bind_e a g else bind_e b g)"
  by simp

lemma bind_e_case_option:
  "bind_e (case_option a b v) g = case_option (bind_e a g) (\<lambda>y. bind_e (b y) g) v"
  by (cases v) simp_all

lemma bind_e_Inr_right: "bind_e m (\<lambda>x. Inr x) = m"
  by (cases m) simp_all

lemma search_items_Cons:
  "search_items p n (x # xs) =
     bind_e (search_items p n [x]) (\<lambda>r1. bind_e (search_items p n xs) (\<lambda>r2. Inr (r1 @ r2)))"
  by (simp add: bind_e_assoc bind_e_if bind_e_case_option bind_e_Inr_right
      cong: if_cong option.case_cong)

lemma search_single_rule:
  assumes "search_items p n [item] = Inr rs"
    and "py_contains ''rule'' item = Inr True"
  obtains rule expr es found fam tab ch where
    "py_getitem item ''rule'' = Inr rule"
    "py_get rule ''expr'' (PList []) = Inr expr"
    "py_get rule ''family'' (PStr []) = Inr fam"
    "py_get rule ''table'' (PStr []) = Inr tab"
    "py_get rule ''chain'' (PStr []) = Inr ch"
    "py_iter expr = Inr es"
    "find_port_match p n es = Inr found"
    "(case found of
        None \<Rightarrow> Inr []
      | Some port_info \<Rightarrow>
          bind_e (format_rule_expression expr) (\<lambda>desc.
          bind_e (py_get rule ''handle'' (PStr [])) (\<lambda>handle.
            Inr [\<lparr>mr_family = fam, mr_table = tab, mr_chain = ch,
                  mr_rule = desc, mr_port_info = port_info, mr_handle = handle\<rparr>]))) = Inr rs"
proof -
  from assms obtain rule where r: "py_getitem item ''rule'' = Inr rule"
    by (auto simp: bind_e_Inr_iff)
  with assms obtain expr where e: "py_get rule ''expr'' (PList []) = Inr expr"
    by (auto simp: bind_e_Inr_iff)
  with assms r obtain fam where f: "py_get rule ''family'' (PStr []) = Inr fam"
    by (auto simp: bind_e_Inr_iff)
  with assms r e obtain tab where t: "py_get rule ''table'' (PStr []) = Inr tab"
    by (auto simp: bind_e_Inr_iff)
  with assms r e f obtain ch where c: "py_get rule ''chain'' (PStr []) = Inr ch"
    by (auto simp: bind_e_Inr_iff)
  with assms r e f t obtain es where i: "py_iter expr = Inr es"
    by (auto simp: bind_e_Inr_iff)
  with assms r e f t c obtain found where fd: "find_port_match p n es = Inr found"
    by (auto simp: bind_e_Inr_iff)
  from assms r e f t c i fd have
    "(case found of
        None \<Rightarrow> Inr []
      | Some port_info \<Rightarrow>
          bind_e (format_rule_expression expr) (\<lambda>desc.
          bind_e (py_get rule ''handle'' (PStr [])) (\<lambda>handle.
            Inr [\<lparr>mr_family = fam, mr_table = tab, mr_chain = ch,
                  mr_rule = desc, mr_port_info = port_info, mr_handle = handle\<rparr>]))) = Inr rs"
    by (simp split: option.splits)
  with r e f t c i fd that show thesis by blast
qed

lemma search_single:
  assumes "search_items p n [item] = Inr rs" and "n \<noteq> 0" and "n \<noteq> 1"
  shows "rs = (if rule_matches p n item then [entry_record p n item] else [])"
    and "rule_matches p n item \<Longrightarrow>
           \<exists>expr. py_iter expr = Inr (entry_nodes item)
                \<and> format_rule_expression expr = Inr (entry_description item)"
proof -
  from assms(1) obtain is_rule where c: "py_contains ''rule'' item = Inr is_rule"
    by (auto simp: bind_e_Inr_iff)
  have "rs = (if rule_matches p n item then [entry_record p n item] else [])
        \<and> (rule_matches p n item \<longrightarrow>
           (\<exists>expr. py_iter expr = Inr (entry_nodes item)
                \<and> format_rule_expression expr = Inr (entry_description item)))"
  proof (cases is_rule)
    case False
    with assms(1) c have "rs = []" by simp
    moreover have "entry_nodes item = []"
    proof (cases "py_getitem item ''rule''")
      case (Inl err)
      then show ?thesis by (simp add: entry_nodes_def)
    next
      case (Inr m)
      with contains_False_getitem [of "''rule''" item m] c False show ?thesis by simp
    qed
    ultimately show ?thesis by (simp add: rule_matches_def)
  next
    case True
    with c have c': "py_contains ''rule'' item = Inr True" by simp
    show ?thesis
    proof (rule search_single_rule [OF assms(1) c'])
    fix rule expr es found fam tab ch
    assume r: "py_getitem item ''rule'' = Inr rule"
      and e: "py_get rule ''expr'' (PList []) = Inr expr"
      and g: "py_get rule ''family'' (PStr []) = Inr fam" "py_get rule ''table'' (PStr []) = Inr tab"
         "py_get rule ''chain'' (PStr []) = Inr ch"
      and i: "py_iter expr = Inr es"
      and f: "find_port_match p n es = Inr found"
      and k: "(case found of
             None \<Rightarrow> Inr []
           | Some port_info \<Rightarrow>
               bind_e (format_rule_expression expr) (\<lambda>desc.
               bind_e (py_get rule ''handle'' (PStr [])) (\<lambda>handle.
                 Inr [\<lparr>mr_family = fam, mr_table = tab, mr_chain = ch,
                        mr_rule = desc, mr_port_info = port_info, mr_handle = handle\<rparr>])))
           = Inr rs"
    from r e i have en: "entry_nodes item = es" by (simp add: entry_nodes_def)
    from find_port_match_iff [OF f] en have rm: "rule_matches p n item = (found \<noteq> None)"
      by (simp add: rule_matches_def)
    show ?thesis
    proof (cases found)
      case None
      with k rm show ?thesis by simp
    next
      case (Some pinfo)
      with k obtain desc where d: "format_rule_expression expr = Inr desc"
        by (auto simp: bind_e_Inr_iff)
      with k Some obtain handle where h: "py_get rule ''handle'' (PStr []) = Inr handle"
        and rs: "rs = [\<lparr>mr_family = fam, mr_table = tab, mr_chain = ch,
                        mr_rule = desc, mr_port_info = pinfo, mr_handle = handle\<rparr>]"
        by (auto simp: bind_e_Inr_iff)
      from find_port_info [OF _ assms(2,3)] f Some have pi: "pinfo = p @ '' dport '' @ show_int n"
        by simp
      from r e d have ed: "entry_description item = desc" by (simp add: entry_description_def)
      from r g h have ef: "entry_field ''family'' item = fam" "entry_field ''table'' item = tab"
        "entry_field ''chain'' item = ch" "entry_field ''handle'' item = handle"
        by (simp_all add: entry_field_def)
      from i en have i': "py_iter expr = Inr (entry_nodes item)" by simp
      from d ed have d': "format_rule_expression expr = Inr (entry_description item)" by simp
      from rm Some have m: "rule_matches p n item" by simp
      from rs pi ed ef have "rs = [entry_record p n item]" by (simp add: entry_record_def)
      with m i' d' show ?thesis by auto
    qed
    qed
  qed
  then show "rs = (if rule_matches p n item then [entry_record p n item] else [])"
    and "rule_matches p n item \<Longrightarrow>
           \<exists>expr. py_iter expr = Inr (entry_nodes item)
                \<and> format_rule_expression expr = Inr (entry_description item)"
    by simp_all
qed

lemma search_items_records:
  assumes "n \<noteq> 0" and "n \<noteq> 1"
  shows "list_all (\<lambda>i. \<not> entry_fails p n i) items \<Longrightarrow>
     search_items p n items = Inr (map (entry_record p n) (filter (rule_matches p n) items))"
proof (induction items)
  case Nil
  then show ?case by simp
next
  case (Cons x xs)
  from Cons.prems have nf: "\<not> entry_fails p n x"
    and rest: "list_all (\<lambda>i. \<not> entry_fails p n i) xs" by simp_all
  from nf obtain rs where s: "search_items p n [x] = Inr rs"
    by (cases "search_items p n [x]") (simp_all add: entry_fails_def)
  from search_single(1) [OF s assms]
  have rs: "rs = (if rule_matches p n x then [entry_record p n x] else [])" .
  have "search_items p n (x # xs) =
      bind_e (search_items p n [x]) (\<lambda>r1. bind_e (search_items p n xs) (\<lambda>r2. Inr (r1 @ r2)))"
    by (rule search_items_Cons)
  with s rs Cons.IH [OF rest] show ?case by (simp del: search_items.simps)
qed


lemma starts_with_iff: "starts_with p s = (\<exists>r. s = p @ r)"
proof (induction p s rule: starts_with.induct)
  case (3 p ps x xs)
  then show ?case by auto
qed simp_all

lemma starts_with_contains: "starts_with p s \<Longrightarrow> contains_str p s"
  by (cases s; cases p) simp_all

lemma contains_str_intro: "contains_str p (a @ p @ b)"
proof (induction a)
  case Nil
  show ?case using starts_with_append [of p b] by (simp add: starts_with_contains)
next
  case (Cons x a)
  then show ?case by simp
qed

lemma read_operands_gets:
  assumes "read_operands m d = Inr od"
  obtains left payload where "py_get m ''left'' (PDict []) = Inr left"
    "py_get m ''right'' d = Inr (od_right od)"
    "py_get left ''payload'' (PDict []) = Inr payload"
    "py_get payload ''protocol'' (PStr []) = Inr (od_protocol od)"
    "py_get payload ''field'' (PStr []) = Inr (od_field od)"
  using assms by (auto simp: read_operands_def bind_e_Inr_iff)

lemma port_match_node_props:
  assumes "port_match_node p k nd"
  shows "is_port_node nd" and "node_matches p k nd"
    and "\<exists>neg. node_port_info nd = neg @ port_label @ '' '' @ show_int k"
proof -
  from assms obtain a m rest where nd0: "nd = PDict ((a, m) # rest)"
    by (auto simp: port_match_node_def split: py.splits list.splits)
  with assms have a: "a = ''match''"
    and c: "(case read_operands m (PStr []) of
               Inr od \<Rightarrow> od_protocol od = PStr p \<and> od_field od = PStr ''dport''
                         \<and> od_right od = PInt k
             | Inl err \<Rightarrow> False)"
    by (simp_all add: port_match_node_def)
  from c obtain od where ro: "read_operands m (PStr []) = Inr od"
    and od: "od_protocol od = PStr p" "od_field od = PStr ''dport''" "od_right od = PInt k"
    by (cases "read_operands m (PStr [])") auto
  from nd0 a have nd: "nd = PDict ((''match'', m) # rest)" by simp
  from nd ro od show "is_port_node nd"
    by (simp add: is_port_node_def node_field_def is_port_field_def)
  from ro obtain left payload where g: "py_get m ''left'' (PDict []) = Inr left"
    "py_get m ''right'' (PStr []) = Inr (od_right od)"
    "py_get left ''payload'' (PDict []) = Inr payload"
    "py_get payload ''protocol'' (PStr []) = Inr (od_protocol od)"
    "py_get payload ''field'' (PStr []) = Inr (od_field od)"
    by (rule read_operands_gets)
  from nd have gi: "py_getitem nd ''match'' = Inr m" by (simp add: py_getitem_def)
  from gi g od show "node_matches p k nd"
    by (simp add: node_matches_def py_int_def)
  from nd ro od have "node_port_info nd = od_neg od @ port_label @ '' '' @ show_int k"
    by (simp add: node_port_info_def format_node_def format_match_def py_get_def
        is_port_field_def py_str_def)
  then show "\<exists>neg. node_port_info nd = neg @ port_label @ '' '' @ show_int k" by blast
qed

lemma py_iter_truthy: "py_iter expr = Inr es \<Longrightarrow> es \<noteq> [] \<Longrightarrow> truthy expr"
  by (cases expr) (auto simp: py_iter_def)

lemma show_int_22: "show_int 22 = ''22''"
  by (simp add: show_int_def show_nat.simps digit_char_def)

text \<open>
  C8, amended. A dump holds exactly one rule entry whose expression list has a match
  node with the protocol \<open>tcp\<close>, the field \<open>dport\<close> and the right operand 22, among any
  other entries, and no entry makes the search raise. Searching it for port 22 with
  protocol \<open>tcp\<close> returns exactly one record, the one of that rule, whatever its family,
  table and chain: the scan covers all rules of the dump, not only those of the managed
  triple, and leaves out the rules without such a node. The \<open>port_info\<close> of the record
  is \<open>tcp dport 22\<close>. Its formatted description contains the substring \<open>22\<close> when
  that match node is the last port-matching node of the expression list: the
  description shows the descriptor of the last port-matching node.
\<close>

theorem search_returns_matching_rule:
  assumes "load_dump loads dump = Some (PDict dkvs)"
    and "map_of dkvs ''nftables'' = Some (PList items)"
    and "py_int port = Inr 22"
    and "filter (rule_matches ''tcp'' 22) items = [item]"
    and "list_all (\<lambda>i. \<not> entry_fails ''tcp'' 22 i) items"
  shows "search_rules_by_port loads dump port ''tcp'' = Some [entry_record ''tcp'' 22 item]
     \<and> mr_port_info (entry_record ''tcp'' 22 item) = ''tcp dport 22''
     \<and> (\<forall>es1 nd es2.
           entry_nodes item = es1 @ nd # es2 \<and> port_match_node ''tcp'' 22 nd
           \<and> list_all (\<lambda>m. \<not> is_port_node m) es2
           \<longrightarrow> contains_str ''22'' (mr_rule (entry_record ''tcp'' 22 item)))"
proof -
  have n: "(22::int) \<noteq> 0" "(22::int) \<noteq> 1" by simp_all
  from search_items_records [OF n assms(5)] assms(4)
  have "search_items ''tcp'' 22 items = Inr [entry_record ''tcp'' 22 item]" by simp
  with assms(1,2,3) have 1: "search_rules_by_port loads dump port ''tcp''
      = Some [entry_record ''tcp'' 22 item]"
    by (simp add: search_rules_by_port_def py_get_def py_iter_def)
  have 2: "mr_port_info (entry_record ''tcp'' 22 item) = ''tcp dport 22''"
    by (simp add: entry_record_def show_int_22)
  have 3: "contains_str ''22'' (mr_rule (entry_record ''tcp'' 22 item))"
    if nodes: "entry_nodes item = es1 @ nd # es2" and pm: "port_match_node ''tcp'' 22 nd"
      and last: "list_all (\<lambda>m. \<not> is_port_node m) es2" for es1 nd es2
  proof -
    from assms(4) have "item \<in> set (filter (rule_matches ''tcp'' 22) items)" by simp
    then have mem: "item \<in> set items" and rm: "rule_matches ''tcp'' 22 item" by simp_all
    from mem assms(5) have "\<not> entry_fails ''tcp'' 22 item" by (simp add: list_all_iff)
    then obtain rs where s: "search_items ''tcp'' 22 [item] = Inr rs"
      by (cases "search_items ''tcp'' 22 [item]") (simp_all add: entry_fails_def)
    from search_single(2) [OF s n rm] obtain expr where
      i: "py_iter expr = Inr (entry_nodes item)"
      and d: "format_rule_expression expr = Inr (entry_description item)" by blast
    from i nodes have "truthy expr" by (simp add: py_iter_truthy)
    with i d nodes obtain st where
      l: "format_loop (es1 @ nd # es2) init_state = Inr st"
      and a: "entry_description item = assemble st"
      by (auto simp: format_rule_expression_def bind_e_Inr_iff)
    from port_match_node_props [OF pm] obtain neg where pn: "is_port_node nd"
      and np: "node_port_info nd = neg @ port_label @ '' '' @ show_int 22" by blast
    from format_loop_last_port [OF l pn last]
    have "starts_with (node_port_info nd) (assemble st)" by simp
    then obtain r where "assemble st = node_port_info nd @ r" by (auto simp: starts_with_iff)
    with np have "assemble st = (neg @ port_label @ '' '') @ ''22'' @ r"
      by (simp add: show_int_22)
    then have "contains_str ''22'' (assemble st)"
      using contains_str_intro [of "''22''" "neg @ port_label @ '' ''" r] by simp
    with a show ?thesis by (simp add: entry_record_def)
  qed
  from 1 2 3 show ?thesis by blast
qed


lemmas search_eval = search_rules_by_port_def load_dump_def py_int_def py_contains_def
  py_getitem_def is_int_def fmt_eval port_label_def lbl_accept_def

text \<open>
  C8, as stated, on a dump with one rule whose expression list has the match node for
  tcp dport 22, followed by a match node for sport 80: the search returns one record,
  and its description is the port label followed by 80, which does not contain \<open>22\<close>.
\<close>

theorem search_description_counterexample:
  "search_rules_by_port
     (\<lambda>s. Inr (PDict [(''nftables'', PList [PDict [(''rule'', PDict [(''family'', PStr ''ip''),
        (''table'', PStr ''filter''), (''chain'', PStr ''input''), (''handle'', PInt 4),
        (''expr'', PList
           [PDict [(''match'', PDict [(''op'', PStr ''==''),
              (''left'', PDict [(''payload'', PDict [(''protocol'', PStr ''tcp''),
                                                    (''field'', PStr ''dport'')])]),
              (''right'', PInt 22)])],
            PDict [(''match'', PDict [(''op'', PStr ''==''),
              (''left'', PDict [(''payload'', PDict [(''protocol'', PStr ''tcp''),
                                                    (''field'', PStr ''sport'')])]),
              (''right'', PInt 80)])]])])]])]))
     (Exited 0 []) (PInt 22) ''tcp''
   = Some [\<lparr>mr_family = PStr ''ip'', mr_table = PStr ''filter'', mr_chain = PStr ''input'',
            mr_rule = port_label @ '' 80'', mr_port_info = ''tcp dport 22'',
            mr_handle = PInt 4\<rparr>]
   \<and> \<not> contains_str ''22'' (port_label @ '' 80'')"
  by (simp add: search_eval)

text \<open>An entry can make the search raise: beside the rule for port 22, a rule that matches
  the tcp dport against a set makes \<open>int()\<close> raise, and the search returns \<open>None\<close>.\<close>

lemma search_set_operand_returns_none:
  "search_rules_by_port
     (\<lambda>s. Inr (PDict [(''nftables'', PList
        [PDict [(''rule'', PDict [(''family'', PStr ''ip''),
           (''table'', PStr ''filter''), (''chain'', PStr ''input''), (''handle'', PInt 4),
           (''expr'', PList
              [PDict [(''match'', PDict [(''op'', PStr ''==''),
                 (''left'', PDict [(''payload'', PDict [(''protocol'', PStr ''tcp''),
                                                       (''field'', PStr ''dport'')])]),
                 (''right'', PInt 22)])],
               PDict [(''accept'', PNone)]])])],
         PDict [(''rule'', PDict [(''family'', PStr ''ip''),
           (''table'', PStr ''filter''), (''chain'', PStr ''input''), (''handle'', PInt 5),
           (''expr'', PList
              [PDict [(''match'', PDict [(''op'', PStr ''==''),
                 (''left'', PDict [(''payload'', PDict [(''protocol'', PStr ''tcp''),
                                                       (''field'', PStr ''dport'')])]),
                 (''right'', PDict [(''set'', PList [PInt 80, PInt 443])])])],
               PDict [(''accept'', PNone)]])])]])]))
     (Exited 0 []) (PInt 22) ''tcp'' = None"
  by (simp add: search_eval)

theorem search_returns_matching_rule_witness:
  "load_dump (\<lambda>s. Inr (PDict [(''nftables'', PList sample_items)])) (Exited 0 [])
     = Some (PDict [(''nftables'', PList sample_items)])
   \<and> py_int (PStr ''22'') = Inr 22
   \<and> filter (rule_matches ''tcp'' 22) sample_items = [sample_ssh_rule]
   \<and> list_all (\<lambda>i. \<not> entry_fails ''tcp'' 22 i) sample_items
   \<and> entry_nodes sample_ssh_rule = [] @ sample_match_22 # [PDict [(''accept'', PNone)]]
   \<and> port_match_node ''tcp'' 22 sample_match_22
   \<and> list_all (\<lambda>m. \<not> is_port_node m) [PDict [(''accept'', PNone)]]
   \<and> search_rules_by_port (\<lambda>s. Inr (PDict [(''nftables'', PList sample_items)])) (Exited 0 [])
        (PStr ''22'') ''tcp''
       = Some [entry_record ''tcp'' 22 sample_ssh_rule]
   \<and> entry_record ''tcp'' 22 sample_ssh_rule
       = \<lparr>mr_family = PStr ''inet'', mr_table = PStr ''services'', mr_chain = PStr ''incoming'',
          mr_rule = port_label @ '' 22 '' @ lbl_accept, mr_port_info = ''tcp dport 22'',
          mr_handle = PInt 7\<rparr>
   \<and> contains_str ''22'' (mr_rule (entry_record ''tcp'' 22 sample_ssh_rule))"
proof -
  let ?loads = "\<lambda>s :: string. (Inr (PDict [(''nftables'', PList sample_items)]) :: py_error + py)"
  have 1: "load_dump ?loads (Exited 0 []) = Some (PDict [(''nftables'', PList sample_items)])"
    by (simp add: load_dump_def)
  have 2: "map_of [(''nftables'', PList sample_items)] ''nftables'' = Some (PList sample_items)"
    by simp
  have 3: "py_int (PStr ''22'') = Inr 22"
    by (simp add: py_int_def str_eval)
  have 4: "filter (rule_matches ''tcp'' 22) sample_items = [sample_ssh_rule]"
    by (simp add: sample_items_def sample_web_rule_def sample_ssh_rule_def sample_match_22_def
        rule_matches_def entry_nodes_def node_matches_def py_getitem_def py_get_def py_iter_def
        py_int_def)
  have 5: "list_all (\<lambda>i. \<not> entry_fails ''tcp'' 22 i) sample_items"
    by (simp add: sample_items_def sample_web_rule_def sample_ssh_rule_def sample_match_22_def
        entry_fails_def search_eval)
  have 6: "entry_nodes sample_ssh_rule = [] @ sample_match_22 # [PDict [(''accept'', PNone)]]"
    by (simp add: sample_ssh_rule_def entry_nodes_def py_getitem_def py_get_def py_iter_def)
  have 7: "port_match_node ''tcp'' 22 sample_match_22"
    by (simp add: sample_match_22_def port_match_node_def read_operands_def py_get_def)
  have 8: "list_all (\<lambda>m. \<not> is_port_node m) [PDict [(''accept'', PNone)]]"
    by (simp add: is_port_node_def node_field_def)
  have 9: "entry_record ''tcp'' 22 sample_ssh_rule
       = \<lparr>mr_family = PStr ''inet'', mr_table = PStr ''services'', mr_chain = PStr ''incoming'',
          mr_rule = port_label @ '' 22 '' @ lbl_accept, mr_port_info = ''tcp dport 22'',
          mr_handle = PInt 7\<rparr>"
    by (simp add: entry_record_def entry_field_def entry_description_def sample_ssh_rule_def
        sample_match_22_def py_getitem_def fmt_eval show_int_22 lbl_accept_def port_label_def)
  from search_returns_matching_rule [OF 1 2 3 4 5] 6 7 8
  have "search_rules_by_port ?loads (Exited 0 []) (PStr ''22'') ''tcp''
          = Some [entry_record ''tcp'' 22 sample_ssh_rule]"
    and "contains_str ''22'' (mr_rule (entry_record ''tcp'' 22 sample_ssh_rule))"
    by blast+
  with 1 3 4 5 6 7 8 9 show ?thesis by blast
qed

subsection \<open>Executing the commands\<close>

lemma exec_loop_append:
  "exec_loop env (xs @ ys) st = exec_loop env ys (exec_loop env xs st)"
  by (induction xs arbitrary: st) simp_all

lemma unknown_error_not_missing:
  "\<not> contains_str ''No such file or directory'' unknown_error"
  "\<not> contains_str ''Could not process rule'' unknown_error"
  by (simp_all add: unknown_error_def)

lemma exec_cmd_count:
  "es_success_count (exec_cmd env c st) + length (es_failed_commands (exec_cmd env c st))
     = es_success_count st + length (es_failed_commands st) + 1"
  by (simp add: exec_cmd_def run_cmd_def succeed_def fail_def Let_def split: run_outcome.split)

lemma exec_loop_count:
  "es_success_count (exec_loop env cs st) + length (es_failed_commands (exec_loop env cs st))
     = es_success_count st + length (es_failed_commands st) + length cs"
  by (induction cs arbitrary: st) (simp_all add: exec_cmd_count)

lemma exec_cmd_remediated:
  assumes "missing_resource (env (es_trace st @ [Run (split_ws c)]))"
  shows "es_trace (exec_cmd env c st)
           = es_trace st @ [Run (split_ws c), InitTables, Run (split_ws c)]"
    and "exit_ok (env (es_trace st @ [Run (split_ws c), InitTables, Run (split_ws c)])) \<Longrightarrow>
           es_success_count (exec_cmd env c st) = es_success_count st + 1
           \<and> es_failed_commands (exec_cmd env c st) = es_failed_commands st"
    and "\<not> exit_ok (env (es_trace st @ [Run (split_ws c), InitTables, Run (split_ws c)])) \<Longrightarrow>
           es_success_count (exec_cmd env c st) = es_success_count st
           \<and> es_failed_commands (exec_cmd env c st) = es_failed_commands st @ [c]"
  using assms unknown_error_not_missing
  by (auto simp: exec_cmd_def run_cmd_def succeed_def fail_def Let_def missing_resource_def
      exit_ok_def strip_def split: run_outcome.splits if_splits)

lemma exec_cmd_plain:
  assumes "\<not> missing_resource (env (es_trace st @ [Run (split_ws c)]))"
  shows "es_trace (exec_cmd env c st) = es_trace st @ [Run (split_ws c)]"
    and "exit_ok (env (es_trace st @ [Run (split_ws c)])) \<Longrightarrow>
           es_success_count (exec_cmd env c st) = es_success_count st + 1
           \<and> es_failed_commands (exec_cmd env c st) = es_failed_commands st"
    and "\<not> exit_ok (env (es_trace st @ [Run (split_ws c)])) \<Longrightarrow>
           es_success_count (exec_cmd env c st) = es_success_count st
           \<and> es_failed_commands (exec_cmd env c st) = es_failed_commands st @ [c]"
  using assms unknown_error_not_missing
  by (auto simp: exec_cmd_def run_cmd_def succeed_def fail_def Let_def missing_resource_def
      exit_ok_def strip_def split: run_outcome.splits if_splits)


text \<open>
  C6. Take any batch and any directive \<open>c\<close> in it, with the directives \<open>xs\<close> before it
  and \<open>ys\<close> after it. Whatever happens to \<open>c\<close>, the loop goes on with \<open>ys\<close>. When the
  first run of \<open>c\<close> fails with an error text of the missing-resource class, the events
  of \<open>c\<close> are exactly: its run, one initialisation of the tables, one more run of the
  same directive; \<open>c\<close> counts as succeeded when that second run exits with status zero
  and is recorded as failed otherwise. In every other case the only event of \<open>c\<close> is its
  single run, and \<open>c\<close> counts as succeeded when the run exits with status zero and is
  recorded as failed otherwise (a failure of another class, or a run that raises). Every
  directive of the batch is counted once, as succeeded or as failed, and the call
  reports success exactly when no directive failed.
\<close>

theorem remediation_once:
  "(let st0 = exec_loop env xs init_exec;
        a = Run (split_ws c);
        st1 = exec_cmd env c st0;
        fin = exec_loop env (xs @ c # ys) init_exec
    in fin = exec_loop env ys st1
       \<and> (missing_resource (env (es_trace st0 @ [a])) \<longrightarrow>
            es_trace st1 = es_trace st0 @ [a, InitTables, a]
            \<and> (if exit_ok (env (es_trace st0 @ [a, InitTables, a]))
                then es_success_count st1 = es_success_count st0 + 1
                     \<and> es_failed_commands st1 = es_failed_commands st0
                else es_success_count st1 = es_success_count st0
                     \<and> es_failed_commands st1 = es_failed_commands st0 @ [c]))
       \<and> (\<not> missing_resource (env (es_trace st0 @ [a])) \<longrightarrow>
            es_trace st1 = es_trace st0 @ [a]
            \<and> (if exit_ok (env (es_trace st0 @ [a]))
                then es_success_count st1 = es_success_count st0 + 1
                     \<and> es_failed_commands st1 = es_failed_commands st0
                else es_success_count st1 = es_success_count st0
                     \<and> es_failed_commands st1 = es_failed_commands st0 @ [c]))
       \<and> es_success_count fin + length (es_failed_commands fin) = length (xs @ c # ys)
       \<and> fst (execute_command env (xs @ c # ys)) = (es_failed_commands fin = []))"
proof -
  have 1: "exec_loop env (xs @ c # ys) init_exec
             = exec_loop env ys (exec_cmd env c (exec_loop env xs init_exec))"
    by (simp add: exec_loop_append)
  have 2: "es_success_count (exec_loop env (xs @ c # ys) init_exec)
             + length (es_failed_commands (exec_loop env (xs @ c # ys) init_exec))
           = length (xs @ c # ys)"
    using exec_loop_count [of env "xs @ c # ys" init_exec] by (simp add: init_exec_def)
  have 3: "fst (execute_command env (xs @ c # ys))
             = (es_failed_commands (exec_loop env (xs @ c # ys) init_exec) = [])"
    using 2 by (auto simp: execute_command_def Let_def)
  show ?thesis
    unfolding Let_def
    using 1 2 3 exec_cmd_remediated [of env "exec_loop env xs init_exec" c]
      exec_cmd_plain [of env "exec_loop env xs init_exec" c]
    by auto
qed

theorem remediation_once_witness:
  "missing_resource ((\<lambda>t. if InitTables \<in> set t then Completed 0 [] []
                          else Completed 1 [] ''Error: Could not process rule: No such file or directory'')
       ([] @ [Run (split_ws ''nft add rule ip filter input tcp dport 22 accept'')]))
   \<and> es_trace (exec_cmd (\<lambda>t. if InitTables \<in> set t then Completed 0 [] []
                          else Completed 1 [] ''Error: Could not process rule: No such file or directory'')
        ''nft add rule ip filter input tcp dport 22 accept'' init_exec)
      = [Run [''nft'', ''add'', ''rule'', ''ip'', ''filter'', ''input'', ''tcp'', ''dport'', ''22'', ''accept''],
         InitTables,
         Run [''nft'', ''add'', ''rule'', ''ip'', ''filter'', ''input'', ''tcp'', ''dport'', ''22'', ''accept'']]
   \<and> es_success_count (exec_cmd (\<lambda>t. if InitTables \<in> set t then Completed 0 [] []
                          else Completed 1 [] ''Error: Could not process rule: No such file or directory'')
        ''nft add rule ip filter input tcp dport 22 accept'' init_exec) = 1
   \<and> es_failed_commands (exec_cmd (\<lambda>t. if InitTables \<in> set t then Completed 0 [] []
                          else Completed 1 [] ''Error: Could not process rule: No such file or directory'')
        ''nft add rule ip filter input tcp dport 22 accept'' init_exec) = []"
proof -
  let ?env = "\<lambda>t. if InitTables \<in> set t then Completed 0 [] []
                 else Completed 1 [] ''Error: Could not process rule: No such file or directory''"
  let ?c = "''nft add rule ip filter input tcp dport 22 accept''"
  have w: "split_ws ?c
     = [''nft'', ''add'', ''rule'', ''ip'', ''filter'', ''input'', ''tcp'', ''dport'', ''22'', ''accept'']"
    by (simp add: split_ws_def str_eval)
  have m: "missing_resource (?env ([] @ [Run (split_ws ?c)]))"
    by (simp add: missing_resource_def str_eval)
  have e: "exit_ok (?env ([] @ [Run (split_ws ?c), InitTables, Run (split_ws ?c)]))"
    by (simp add: exit_ok_def)
  have i: "es_trace init_exec = []" "es_success_count init_exec = 0"
    "es_failed_commands init_exec = []"
    by (simp_all add: init_exec_def)
  from remediation_once [of ?env "[]" ?c "[]"] m e i w show ?thesis
    by (simp add: Let_def)
qed

end
